theory Spec2Isabelle
  imports Main "HOL-Library.Word" "HOL-Library.Sublist"
begin

unbundle bit_operations_syntax

section \<open>The C library routines the program formats and scans text with\<close>

text \<open>
  The program (\<^verbatim>\<open>10ginit.cpp\<close>) formats MAC addresses with \<^verbatim>\<open>snprintf\<close> and scans both
  the MAC given on the command line and the MDIO write list of the configuration file with
  \<^verbatim>\<open>sscanf\<close>. These routines belong to the C library, not to the repository; they are
  modelled here, after the C standard and the GNU C library, as far as the two format
  strings of the program use them: white-space directives, literal characters, and the
  conversions \<^verbatim>\<open>%d\<close>, \<^verbatim>\<open>%x\<close>, \<^verbatim>\<open>%hhx\<close> and \<^verbatim>\<open>%n\<close>, in the "C" locale and with
  a 64-bit \<^verbatim>\<open>long\<close>.
\<close>

type_synonym u8 = "8 word"
type_synonym u32 = "32 word"

definition isspace :: "char \<Rightarrow> bool" where
  "isspace c = (c = CHR '' '' \<or> c = CHR 0x09 \<or> c = CHR 0x0A \<or> c = CHR 0x0B
                \<or> c = CHR 0x0C \<or> c = CHR 0x0D)"

definition isdigit :: "char \<Rightarrow> bool" where
  "isdigit c = (48 \<le> (of_char c :: nat) \<and> (of_char c :: nat) \<le> 57)"

definition isxdigit :: "char \<Rightarrow> bool" where
  "isxdigit c = (isdigit c \<or> (97 \<le> (of_char c :: nat) \<and> (of_char c :: nat) \<le> 102)
                 \<or> (65 \<le> (of_char c :: nat) \<and> (of_char c :: nat) \<le> 70))"

definition digit_value :: "char \<Rightarrow> int" where
  "digit_value c =
     (if isdigit c then of_char c - 48
      else if 97 \<le> (of_char c :: nat) then of_char c - 87
      else of_char c - 55)"

definition digits_value :: "int \<Rightarrow> string \<Rightarrow> int" where
  "digits_value base ds = foldl (\<lambda>acc c. acc * base + digit_value c) 0 ds"

text \<open>
  \<^verbatim>\<open>strtol\<close> saturates at the ends of \<^verbatim>\<open>long\<close>; \<^verbatim>\<open>strtoul\<close> saturates at
  \<^verbatim>\<open>ULONG_MAX\<close> whatever the sign, and otherwise negates modulo \<open>2 ^ 64\<close>.
\<close>

definition strtol_value :: "bool \<Rightarrow> int \<Rightarrow> int" where
  "strtol_value neg m =
     (if neg then max (- (2 ^ 63)) (- m) else min (2 ^ 63 - 1) m)"

definition strtoul_value :: "bool \<Rightarrow> int \<Rightarrow> int" where
  "strtoul_value neg m =
     (if 2 ^ 64 - 1 < m then 2 ^ 64 - 1
      else if neg then (- m) mod 2 ^ 64 else m)"

datatype scan = Input_failure | Matching_failure | Converted int string

definition split_sign :: "string \<Rightarrow> bool \<times> string" where
  "split_sign s =
     (case s of [] \<Rightarrow> (False, [])
      | c # cs \<Rightarrow> if c = CHR ''-'' then (True, cs)
                 else if c = CHR ''+'' then (False, cs) else (False, s))"

definition has_0x_prefix :: "string \<Rightarrow> bool" where
  "has_0x_prefix s =
     (case s of c0 # c1 # _ \<Rightarrow> c0 = CHR ''0'' \<and> (c1 = CHR ''x'' \<or> c1 = CHR ''X'')
      | _ \<Rightarrow> False)"

text \<open>
  A conversion skips leading white space. At the end of the input it is an input failure;
  with no digit to read it is a matching failure. \<^verbatim>\<open>%x\<close> accepts a \<^verbatim>\<open>0x\<close> prefix, and
  a \<^verbatim>\<open>0x\<close> that no hexadecimal digit follows is read whole, as zero.
\<close>

definition conv_d :: "string \<Rightarrow> scan" where
  "conv_d s =
     (let s1 = dropWhile isspace s in
      if s1 = [] then Input_failure
      else
        let (neg, s2) = split_sign s1;
            ds = takeWhile isdigit s2
        in if ds = [] then Matching_failure
           else Converted (strtol_value neg (digits_value 10 ds)) (drop (length ds) s2))"

definition conv_x :: "string \<Rightarrow> scan" where
  "conv_x s =
     (let s1 = dropWhile isspace s in
      if s1 = [] then Input_failure
      else
        let (neg, s2) = split_sign s1;
            s3 = (if has_0x_prefix s2 then drop 2 s2 else s2);
            ds = takeWhile isxdigit s3
        in if \<not> has_0x_prefix s2 \<and> ds = [] then Matching_failure
           else Converted (strtoul_value neg (digits_value 16 ds)) (drop (length ds) s3))"

text \<open>
  A format string is a list of directives. \<open>sscanf_run\<close> takes the directives left, the
  whole input, the input left, the values stored so far and the number of conversions
  done; it returns what \<^verbatim>\<open>sscanf\<close> returns (\<open>-1\<close> is \<^verbatim>\<open>EOF\<close>) and the values stored,
  in the order of the pointer arguments. The caller narrows each value to the type its
  pointer has. \<^verbatim>\<open>%n\<close> stores the number of characters read so far and is not counted.
\<close>

datatype directive = WS | Lit char | Conv_d | Conv_x | Conv_n

definition scan_failed :: "bool \<Rightarrow> nat \<Rightarrow> int list \<Rightarrow> int \<times> int list" where
  "scan_failed at_end n vs = (if at_end \<and> n = 0 then (- 1, vs) else (int n, vs))"

fun sscanf_run :: "directive list \<Rightarrow> string \<Rightarrow> string \<Rightarrow> int list \<Rightarrow> nat \<Rightarrow> int \<times> int list" where
  "sscanf_run [] s0 s vs n = (int n, vs)"
| "sscanf_run (WS # ds) s0 s vs n = sscanf_run ds s0 (dropWhile isspace s) vs n"
| "sscanf_run (Lit c # ds) s0 s vs n =
     (case s of [] \<Rightarrow> scan_failed True n vs
      | x # xs \<Rightarrow> if x = c then sscanf_run ds s0 xs vs n else scan_failed False n vs)"
| "sscanf_run (Conv_d # ds) s0 s vs n =
     (case conv_d s of
        Input_failure \<Rightarrow> scan_failed True n vs
      | Matching_failure \<Rightarrow> scan_failed False n vs
      | Converted v rest \<Rightarrow> sscanf_run ds s0 rest (vs @ [v]) (Suc n))"
| "sscanf_run (Conv_x # ds) s0 s vs n =
     (case conv_x s of
        Input_failure \<Rightarrow> scan_failed True n vs
      | Matching_failure \<Rightarrow> scan_failed False n vs
      | Converted v rest \<Rightarrow> sscanf_run ds s0 rest (vs @ [v]) (Suc n))"
| "sscanf_run (Conv_n # ds) s0 s vs n =
     sscanf_run ds s0 s (vs @ [int (length s0 - length s)]) n"

definition sscanf :: "string \<Rightarrow> directive list \<Rightarrow> int \<times> int list" where
  "sscanf s fmt = sscanf_run fmt s s [] 0"

text \<open>\<^verbatim>\<open>c_str()\<close> hands \<^verbatim>\<open>sscanf\<close> a C string: it ends at the first NUL character.\<close>

definition c_str :: "string \<Rightarrow> string" where
  "c_str s = takeWhile (\<lambda>c. c \<noteq> CHR 0x00) s"

section \<open>MAC addresses: \<^verbatim>\<open>format_mac\<close>, the scan of \<^verbatim>\<open>-s MAC\<close>, \<^verbatim>\<open>validate_mac_address\<close>\<close>

text \<open>
  \<^verbatim>\<open>%02hhx\<close> prints a byte as two lower-case hexadecimal digits. \<^verbatim>\<open>snprintf\<close> returns
  the length of the formatted text; the buffer of 20 characters holds the 17 of a MAC
  address whole. \<^verbatim>\<open>format_mac\<close> throws \<^verbatim>\<open>std::runtime_error\<close> when that length is not 17.
  A MAC buffer \<^verbatim>\<open>uint8_t macbuf[6]\<close> is a list of bytes.
\<close>

datatype error = Runtime_error string

definition hexdigit :: "nat \<Rightarrow> char" where
  "hexdigit n = ''0123456789abcdef'' ! n"

definition fmt_02hhx :: "u8 \<Rightarrow> string" where
  "fmt_02hhx b = [hexdigit (unat b div 16), hexdigit (unat b mod 16)]"

definition snprintf_mac :: "u8 list \<Rightarrow> string" where
  "snprintf_mac macbuf =
     fmt_02hhx (macbuf ! 0) @ '':'' @ fmt_02hhx (macbuf ! 1) @ '':'' @
     fmt_02hhx (macbuf ! 2) @ '':'' @ fmt_02hhx (macbuf ! 3) @ '':'' @
     fmt_02hhx (macbuf ! 4) @ '':'' @ fmt_02hhx (macbuf ! 5)"

definition format_mac :: "u8 list \<Rightarrow> error + string" where
  "format_mac macbuf =
     (let macstr = snprintf_mac macbuf in
      if length macstr \<noteq> 17 then Inl (Runtime_error ''Unable to format MAC address'')
      else Inr macstr)"

text \<open>
  The store action scans its argument with
  \<^verbatim>\<open>sscanf(set_mac.c_str(), "%hhx:%hhx:%hhx:%hhx:%hhx:%hhx", &macbuf2[0], ...) != 6\<close>.
  \<^verbatim>\<open>%hhx\<close> converts as \<^verbatim>\<open>%x\<close> does and stores the low eight bits.
\<close>

definition mac_format :: "directive list" where
  "mac_format = [Conv_x, Lit CHR '':'', Conv_x, Lit CHR '':'', Conv_x, Lit CHR '':'',
                 Conv_x, Lit CHR '':'', Conv_x, Lit CHR '':'', Conv_x]"

definition parse_mac :: "string \<Rightarrow> u8 list option" where
  "parse_mac set_mac =
     (case sscanf (c_str set_mac) mac_format of
        (ret, vs) \<Rightarrow> if ret \<noteq> 6 then None else Some (map of_int vs))"

text \<open>
  \<^verbatim>\<open>validate_mac_address\<close>; the warning and the error messages it prints to
  \<^verbatim>\<open>stderr\<close> are left out, the exception of \<^verbatim>\<open>format_mac\<close> is the \<open>Inl\<close> result.
  \<^verbatim>\<open>fmac.substr(0, n)\<close> is \<open>take n fmac\<close>: it does not throw for a position of 0.
\<close>

definition validate_mac_address :: "string \<Rightarrow> u8 list \<Rightarrow> bool \<Rightarrow> error + bool" where
  "validate_mac_address valid_mac_prefix macbuf warn =
     (if length valid_mac_prefix = 0 then Inr True
      else case format_mac macbuf of
        Inl e \<Rightarrow> Inl e
      | Inr fmac \<Rightarrow>
          if fmac = ''00:00:00:00:00:00'' then Inr False
          else if fmac = ''ff:ff:ff:ff:ff:ff'' then Inr False
          else if (macbuf ! 0) AND 0x01 \<noteq> 0 then Inr False
          else if take (length valid_mac_prefix) fmac \<noteq> valid_mac_prefix then Inr False
          else Inr True)"

section \<open>The MDIO write list: \<^verbatim>\<open>parse_mdio_writes\<close>\<close>

text \<open>
  \<^verbatim>\<open>class MDIO_Operation\<close> has four \<^verbatim>\<open>uint32_t\<close> members. The loop of
  \<^verbatim>\<open>parse_mdio_writes\<close> scans the rest of the string from index \<open>i\<close> with
  \<^verbatim>\<open>sscanf(..., " %d.%d:%x=%x %n", &port, &dev, &reg, &val, &incr)\<close>, leaves the loop when
  the result is not 4, and otherwise appends the operation and advances \<open>i\<close> by
  \<open>incr\<close>. \<open>incr\<close> starts at 0 and is what \<^verbatim>\<open>%n\<close> stored, the fifth value.
  The loop ends because four conversions read at least one character.
\<close>

record MDIO_Operation =
  port :: u32
  dev :: u32
  reg :: u32
  val :: u32

definition mdio_format :: "directive list" where
  "mdio_format = [WS, Conv_d, Lit CHR ''.'', Conv_d, Lit CHR '':'', Conv_x, Lit CHR ''='',
                  Conv_x, WS, Conv_n]"

definition stored_incr :: "int list \<Rightarrow> nat" where
  "stored_incr vs = (if 4 < length vs then nat (vs ! 4) else 0)"

function parse_mdio_loop :: "string \<Rightarrow> nat \<Rightarrow> MDIO_Operation list \<Rightarrow> MDIO_Operation list" where
  "parse_mdio_loop mdio_config_str i ops =
     (if i < length mdio_config_str then
        (case sscanf (c_str (drop i mdio_config_str)) mdio_format of
           (ret, vs) \<Rightarrow>
             if ret \<noteq> 4 then ops
             else parse_mdio_loop mdio_config_str (i + stored_incr vs)
                    (ops @ [\<lparr>port = of_int (vs ! 0), dev = of_int (vs ! 1),
                             reg = of_int (vs ! 2), val = of_int (vs ! 3)\<rparr>]))
      else ops)"
  by pat_completeness auto
termination
proof (relation "measure (\<lambda>(s, i, ops). length s - i)")
  show "wf (measure (\<lambda>(s, i, ops). length s - i))" by simp
next
  fix mdio_config_str :: string and i :: nat and ops :: "MDIO_Operation list"
    and ret :: int and vs :: "int list"
  assume i: "i < length mdio_config_str"
    and rv: "(ret, vs) = sscanf (c_str (drop i mdio_config_str)) mdio_format"
    and ret: "\<not> ret \<noteq> 4"
  have ss: "length (snd (split_sign u)) \<le> length u" for u
    by (cases u) (auto simp: split_sign_def)
  have d: "length r < length s" if "conv_d s = Converted v r" for s v r
  proof -
    obtain neg s2 where sp: "split_sign (dropWhile isspace s) = (neg, s2)"
      by (cases "split_sign (dropWhile isspace s)")
    have "length s2 \<le> length (dropWhile isspace s)"
      using ss [of "dropWhile isspace s"] sp by simp
    moreover have "length (dropWhile isspace s) \<le> length s"
      by (rule length_dropWhile_le)
    moreover have tw: "takeWhile isdigit s2 \<noteq> []"
      and r: "r = drop (length (takeWhile isdigit s2)) s2"
      using that sp by (auto simp: conv_d_def Let_def split: if_splits)
    have "0 < length (takeWhile isdigit s2)" using tw by simp
    moreover have "0 < length s2" using tw by (cases s2) auto
    moreover have "length r = length s2 - length (takeWhile isdigit s2)" using r by simp
    ultimately show ?thesis by arith
  qed
  have h: "length r \<le> length s" if "conv_x s = Converted v r" for s v r
  proof -
    obtain neg s2 where sp: "split_sign (dropWhile isspace s) = (neg, s2)"
      by (cases "split_sign (dropWhile isspace s)")
    have "length s2 \<le> length (dropWhile isspace s)"
      using ss [of "dropWhile isspace s"] sp by simp
    moreover have "length (dropWhile isspace s) \<le> length s"
      by (rule length_dropWhile_le)
    moreover have "length r \<le> length s2"
      using that sp by (auto simp: conv_x_def Let_def split: if_splits)
    ultimately show ?thesis by simp
  qed
  let ?t = "c_str (drop i mdio_config_str)"
  have "4 < length vs \<and> 0 < vs ! 4"
  proof -
    from rv ret have run: "sscanf_run mdio_format ?t ?t [] 0 = (4, vs)"
      by (simp add: sscanf_def)
    then obtain v1 r1 v2 r2 v3 r3 v4 r4 where
      c1: "conv_d (dropWhile isspace ?t) = Converted v1 (CHR ''.'' # r1)"
      and c2: "conv_d r1 = Converted v2 (CHR '':'' # r2)"
      and c3: "conv_x r2 = Converted v3 (CHR ''='' # r3)"
      and c4: "conv_x r3 = Converted v4 r4"
      and vs: "vs = [v1, v2, v3, v4, int (length ?t - length (dropWhile isspace r4))]"
      by (auto simp: mdio_format_def scan_failed_def split: scan.splits list.splits if_splits)
    have "length (dropWhile isspace r4) \<le> length r4" by (rule length_dropWhile_le)
    moreover have "length (dropWhile isspace ?t) \<le> length ?t" by (rule length_dropWhile_le)
    moreover note d [OF c1] d [OF c2] h [OF c3] h [OF c4]
    ultimately have "length (dropWhile isspace r4) < length ?t" by simp
    with vs show ?thesis by simp
  qed
  then have "0 < stored_incr vs" by (simp add: stored_incr_def)
  with i show "((mdio_config_str, i + stored_incr vs,
          ops @ [\<lparr>port = of_int (vs ! 0), dev = of_int (vs ! 1),
                             reg = of_int (vs ! 2), val = of_int (vs ! 3)\<rparr>]),
         mdio_config_str, i, ops) \<in> measure (\<lambda>(s, i, ops). length s - i)"
    by simp
qed

definition parse_mdio_writes :: "string \<Rightarrow> MDIO_Operation list" where
  "parse_mdio_writes mdio_config_str = parse_mdio_loop mdio_config_str 0 []"

section \<open>The platform: registers, the reset line, the EEPROM\<close>

text \<open>
  The program acts on hardware through \<^verbatim>\<open>libeasymem\<close> (register windows),
  \<^verbatim>\<open>libgpiod\<close> (the reset line) and \<^verbatim>\<open>libwisci2c\<close> (the EEPROM). What these calls
  return is not decided by the program: a \<open>platform\<close> gives the result of every call.
  The calls that happen once, while resources are acquired, have one result each. Every
  later call is numbered in the order of the run (\<open>calls\<close>), and the platform gives the
  result of the call with that number. A run is deterministic given the platform, so a
  statement for all platforms covers every behaviour of the hardware.

  The \<open>world\<close> is what a run has done so far: the number of calls made, the calls and
  sleeps in order (\<open>trace\<close>), and the value the reset line was last driven to by a call
  that succeeded (\<open>None\<close> before the first; 1 holds the core in reset).
\<close>

datatype region = Gbe_registers | Mdio_registers

datatype event =
    Safewrite32 region u32 u32
  | Saferead32 region u32
  | Unsafe_reg32 region u32
  | Usleep nat
  | Sleep nat
  | Gpiod_line_request_output int
  | Gpiod_line_set_value int
  | I2c_read nat
  | I2c_write "u8 list"

record platform =
  map_gbe_rc :: int
  map_mdio_rc :: int
  realpath_ok :: bool
  gpiod_chip_open_ok :: bool
  gpiod_chip_get_line_ok :: bool
  open_eeprom_fd :: int
  safewrite32_rc :: "nat \<Rightarrow> int"
  saferead32_res :: "nat \<Rightarrow> int \<times> u32"
  unsafe_reg32_val :: "nat \<Rightarrow> u32"
  gpiod_rc :: "nat \<Rightarrow> int"
  i2c_read_res :: "nat \<Rightarrow> int \<times> (nat \<Rightarrow> u8)"
  i2c_write_rc :: "nat \<Rightarrow> int"

record world =
  calls :: nat
  trace :: "event list"
  reset_line :: "int option"

definition start :: world where
  "start = \<lparr>calls = 0, trace = [], reset_line = None\<rparr>"

definition called :: "event \<Rightarrow> world \<Rightarrow> world" where
  "called e w = w\<lparr>calls := Suc (calls w), trace := trace w @ [e]\<rparr>"

definition easymem_safewrite32 :: "platform \<Rightarrow> region \<Rightarrow> u32 \<Rightarrow> u32 \<Rightarrow> world \<Rightarrow> int \<times> world" where
  "easymem_safewrite32 p r offset v w = (safewrite32_rc p (calls w), called (Safewrite32 r offset v) w)"

definition easymem_saferead32 :: "platform \<Rightarrow> region \<Rightarrow> u32 \<Rightarrow> world \<Rightarrow> (int \<times> u32) \<times> world" where
  "easymem_saferead32 p r offset w = (saferead32_res p (calls w), called (Saferead32 r offset) w)"

definition UNSAFE_REG32 :: "platform \<Rightarrow> region \<Rightarrow> u32 \<Rightarrow> world \<Rightarrow> u32 \<times> world" where
  "UNSAFE_REG32 p r offset w = (unsafe_reg32_val p (calls w), called (Unsafe_reg32 r offset) w)"

definition usleep :: "nat \<Rightarrow> world \<Rightarrow> world" where
  "usleep us w = w\<lparr>trace := trace w @ [Usleep us]\<rparr>"

definition sleep :: "nat \<Rightarrow> world \<Rightarrow> world" where
  "sleep s w = w\<lparr>trace := trace w @ [Sleep s]\<rparr>"

definition driven :: "int \<Rightarrow> int \<Rightarrow> world \<Rightarrow> world" where
  "driven rc v w = (if rc < 0 then w else w\<lparr>reset_line := Some v\<rparr>)"

definition gpiod_line_request_output :: "platform \<Rightarrow> int \<Rightarrow> world \<Rightarrow> int \<times> world" where
  "gpiod_line_request_output p v w =
     (gpiod_rc p (calls w), driven (gpiod_rc p (calls w)) v (called (Gpiod_line_request_output v) w))"

definition gpiod_line_set_value :: "platform \<Rightarrow> int \<Rightarrow> world \<Rightarrow> int \<times> world" where
  "gpiod_line_set_value p v w =
     (gpiod_rc p (calls w), driven (gpiod_rc p (calls w)) v (called (Gpiod_line_set_value v) w))"

text \<open>
  \<^verbatim>\<open>i2c_read(fd, address, offset, buf, 6)\<close> returns a count and leaves bytes in the
  6-byte buffer; \<^verbatim>\<open>i2c_write\<close> returns a count.
\<close>

definition i2c_read :: "platform \<Rightarrow> nat \<Rightarrow> world \<Rightarrow> (int \<times> u8 list) \<times> world" where
  "i2c_read p n w =
     ((fst (i2c_read_res p (calls w)), map (snd (i2c_read_res p (calls w))) [0..<n]),
      called (I2c_read n) w)"

definition i2c_write :: "platform \<Rightarrow> u8 list \<Rightarrow> world \<Rightarrow> int \<times> world" where
  "i2c_write p buf w = (i2c_write_rc p (calls w), called (I2c_write buf) w)"

section \<open>\<^verbatim>\<open>mdio.cpp\<close>: the MDIO transactions\<close>

definition MDIO_OP_ADDR :: u32 where "MDIO_OP_ADDR = 0"
definition MDIO_OP_WR :: u32 where "MDIO_OP_WR = 1"
definition MDIO_OP_RD :: u32 where "MDIO_OP_RD = 3"

definition MDIO_ADDRESS1_OFFSET :: u32 where "MDIO_ADDRESS1_OFFSET = 0x00"
definition MDIO_ADDRESS2_OFFSET :: u32 where "MDIO_ADDRESS2_OFFSET = 0x04"
definition MDIO_WRITE_BUF_OFFSET :: u32 where "MDIO_WRITE_BUF_OFFSET = 0x08"
definition MDIO_READ_BUF_OFFSET :: u32 where "MDIO_READ_BUF_OFFSET = 0x0c"
definition MDIO_CTRL_REG_OFFSET :: u32 where "MDIO_CTRL_REG_OFFSET = 0x10"

definition MDIO_CTRL_ENA_BIT :: u32 where "MDIO_CTRL_ENA_BIT = 0x8"
definition MDIO_CTRL_REQ_BUSY_BIT :: u32 where "MDIO_CTRL_REQ_BUSY_BIT = 0x1"

definition MDIO_STATUS_POLL_LIMIT :: nat where "MDIO_STATUS_POLL_LIMIT = 100"
definition MDIO_STATUS_POLL_DELAY :: nat where "MDIO_STATUS_POLL_DELAY = 10000"

text \<open>
  The macro \<^verbatim>\<open>MDIO_ADDR1(OPCODE, PORT, DEVICE)\<close>, with its masks \<^verbatim>\<open>0x3\<close>, \<^verbatim>\<open>0x1f\<close>,
  \<^verbatim>\<open>0x1f\<close> and its positions 10, 5, 0, on \<^verbatim>\<open>uint32_t\<close>.
\<close>

definition MDIO_ADDR1 :: "u32 \<Rightarrow> u32 \<Rightarrow> u32 \<Rightarrow> u32" where
  "MDIO_ADDR1 OPCODE PORT DEVICE =
     push_bit 10 (OPCODE AND 0x3) + push_bit 5 (PORT AND 0x1f) + push_bit 0 (DEVICE AND 0x1f)"

text \<open>
  The loop that waits for the BUSY bit stands three times in \<^verbatim>\<open>mdio.cpp\<close>, with the same
  text: in \<^verbatim>\<open>mdio_phy_addr\<close>, \<^verbatim>\<open>mdio_phy_write\<close> and \<^verbatim>\<open>mdio_phy_read\<close>. \<open>wait_busy\<close>
  is that loop from the counter \<open>i\<close> on: \<open>Inl rc\<close> when the function returns \<open>rc\<close> from
  inside the loop, \<open>Inr i\<close> when the loop is left with the counter at \<open>i\<close>.
\<close>

function wait_busy :: "platform \<Rightarrow> nat \<Rightarrow> world \<Rightarrow> (int + nat) \<times> world" where
  "wait_busy p i w =
     (if i < MDIO_STATUS_POLL_LIMIT then
        (case easymem_saferead32 p Mdio_registers MDIO_CTRL_REG_OFFSET w of
           ((rc, regval), w1) \<Rightarrow>
             if rc < 0 then (Inl (- 1), w1)
             else if regval AND MDIO_CTRL_REQ_BUSY_BIT = 0 then (Inr i, w1)
             else wait_busy p (Suc i) (usleep MDIO_STATUS_POLL_DELAY w1))
      else (Inr i, w))"
  by pat_completeness auto
termination
  by (relation "measure (\<lambda>(p, i, w). MDIO_STATUS_POLL_LIMIT - i)") auto

definition mdio_phy_addr :: "platform \<Rightarrow> u32 \<Rightarrow> u32 \<Rightarrow> u32 \<Rightarrow> world \<Rightarrow> int \<times> world" where
  "mdio_phy_addr p PortAddr DeviceAddr RegAddr w =
     (case easymem_safewrite32 p Mdio_registers MDIO_ADDRESS1_OFFSET
             (MDIO_ADDR1 MDIO_OP_ADDR PortAddr DeviceAddr) w of
        (rc1, w1) \<Rightarrow>
          if rc1 < 0 then (- 1, w1)
          else case easymem_safewrite32 p Mdio_registers MDIO_ADDRESS2_OFFSET RegAddr
                      (usleep 10000 w1) of
            (rc2, w2) \<Rightarrow>
              if rc2 < 0 then (- 1, w2)
              else case easymem_safewrite32 p Mdio_registers MDIO_CTRL_REG_OFFSET
                          (MDIO_CTRL_ENA_BIT OR MDIO_CTRL_REQ_BUSY_BIT) (usleep 10000 w2) of
                (rc3, w3) \<Rightarrow>
                  if rc3 < 0 then (- 1, w3)
                  else case wait_busy p 0 (usleep 10000 w3) of
                    (Inl rc, w4) \<Rightarrow> (rc, w4)
                  | (Inr i, w4) \<Rightarrow> if i = MDIO_STATUS_POLL_LIMIT then (- 1, w4) else (0, w4))"

definition mdio_phy_write :: "platform \<Rightarrow> u32 \<Rightarrow> u32 \<Rightarrow> u32 \<Rightarrow> u32 \<Rightarrow> world \<Rightarrow> int \<times> world" where
  "mdio_phy_write p PortAddr DeviceAddr RegAddr WriteBuf w =
     (case mdio_phy_addr p PortAddr DeviceAddr RegAddr w of
        (rc0, w0) \<Rightarrow>
          if rc0 < 0 then (- 1, w0)
          else case easymem_safewrite32 p Mdio_registers MDIO_ADDRESS1_OFFSET
                      (MDIO_ADDR1 MDIO_OP_WR PortAddr DeviceAddr) w0 of
            (rc1, w1) \<Rightarrow>
              if rc1 < 0 then (- 1, w1)
              else case easymem_safewrite32 p Mdio_registers MDIO_WRITE_BUF_OFFSET WriteBuf w1 of
                (rc2, w2) \<Rightarrow>
                  if rc2 < 0 then (- 1, w2)
                  else case easymem_safewrite32 p Mdio_registers MDIO_CTRL_REG_OFFSET
                              (MDIO_CTRL_ENA_BIT OR MDIO_CTRL_REQ_BUSY_BIT) w2 of
                    (rc3, w3) \<Rightarrow>
                      if rc3 < 0 then (- 1, w3)
                      else case wait_busy p 0 w3 of
                        (Inl rc, w4) \<Rightarrow> (rc, w4)
                      | (Inr i, w4) \<Rightarrow>
                          if i = MDIO_STATUS_POLL_LIMIT then (- 1, w4) else (0, w4))"

text \<open>\<^verbatim>\<open>mdio_phy_read\<close> returns its status and the value it left in \<^verbatim>\<open>*pReadBuf\<close>, if any.\<close>

definition mdio_phy_read :: "platform \<Rightarrow> u32 \<Rightarrow> u32 \<Rightarrow> u32 \<Rightarrow> world \<Rightarrow> (int \<times> u32 option) \<times> world" where
  "mdio_phy_read p PortAddr DeviceAddr RegAddr w =
     (case mdio_phy_addr p PortAddr DeviceAddr RegAddr w of
        (rc0, w0) \<Rightarrow>
          if rc0 < 0 then ((- 1, None), w0)
          else case easymem_safewrite32 p Mdio_registers MDIO_ADDRESS1_OFFSET
                      (MDIO_ADDR1 MDIO_OP_RD PortAddr DeviceAddr) w0 of
            (rc1, w1) \<Rightarrow>
              if rc1 < 0 then ((- 1, None), w1)
              else case easymem_safewrite32 p Mdio_registers MDIO_CTRL_REG_OFFSET
                          (MDIO_CTRL_ENA_BIT OR MDIO_CTRL_REQ_BUSY_BIT) w1 of
                (rc2, w2) \<Rightarrow>
                  if rc2 < 0 then ((- 1, None), w2)
                  else case wait_busy p 0 w2 of
                    (Inl rc, w3) \<Rightarrow> ((rc, None), w3)
                  | (Inr i, w3) \<Rightarrow>
                      if i = MDIO_STATUS_POLL_LIMIT then ((- 1, None), w3)
                      else case easymem_saferead32 p Mdio_registers MDIO_READ_BUF_OFFSET w3 of
                        ((rc4, v), w4) \<Rightarrow>
                          if rc4 < 0 then ((- 1, None), w4) else ((0, Some v), w4))"

section \<open>\<^verbatim>\<open>10ginit.cpp\<close>: \<^verbatim>\<open>main\<close>\<close>

definition GBE_RST_SETTLE_US :: nat where "GBE_RST_SETTLE_US = 1000000"

definition GBE_REG_USR_MAC_HIGH :: u32 where "GBE_REG_USR_MAC_HIGH = 0x00"
definition GBE_REG_USR_MAC_LOW :: u32 where "GBE_REG_USR_MAC_LOW = 0x04"
definition GBE_REG_SYSTEM_MAC_HIGH :: u32 where "GBE_REG_SYSTEM_MAC_HIGH = 0x10"
definition GBE_REG_SYSTEM_MAC_LOW :: u32 where "GBE_REG_SYSTEM_MAC_LOW = 0x14"
definition GBE_REG_USR_MAC_CFG :: u32 where "GBE_REG_USR_MAC_CFG = 0x18"

text \<open>
  A run ends when \<^verbatim>\<open>main\<close> returns an exit status, or when an exception nobody catches
  leaves \<^verbatim>\<open>main\<close> (the only \<^verbatim>\<open>throw\<close> of the program is in \<^verbatim>\<open>format_mac\<close>).
  Messages printed to \<^verbatim>\<open>stdout\<close> and \<^verbatim>\<open>stderr\<close> are left out.
\<close>

datatype outcome = Exit int | Uncaught error

text \<open>
  The option loop. \<^verbatim>\<open>getopt\<close> yields the options of the command line one by one;
  \<open>Opt_other\<close> is its answer \<^verbatim>\<open>'?'\<close>. The local variable \<^verbatim>\<open>action\<close> is declared
  without an initial value: the value it holds when the loop begins is a parameter here.
\<close>

datatype action = DO_NOTHING | DO_QUERY | DO_STORE | DO_INITIALIZE

datatype getopt = Opt_c string | Opt_q | Opt_s string | Opt_i | Opt_other

fun getopt_loop :: "getopt list \<Rightarrow> string \<times> action \<times> string \<Rightarrow> int + string \<times> action \<times> string" where
  "getopt_loop [] st = Inr st"
| "getopt_loop (Opt_c optarg # opts) (config_file_path, act, set_mac) =
     getopt_loop opts (optarg, act, set_mac)"
| "getopt_loop (Opt_q # opts) (config_file_path, act, set_mac) =
     (if act \<noteq> DO_NOTHING then Inl 1 else getopt_loop opts (config_file_path, DO_QUERY, set_mac))"
| "getopt_loop (Opt_s optarg # opts) (config_file_path, act, set_mac) =
     (if act \<noteq> DO_NOTHING then Inl 1 else getopt_loop opts (config_file_path, DO_STORE, optarg))"
| "getopt_loop (Opt_i # opts) (config_file_path, act, set_mac) =
     (if act \<noteq> DO_NOTHING then Inl 1
      else getopt_loop opts (config_file_path, DO_INITIALIZE, set_mac))"
| "getopt_loop (Opt_other # opts) st = Inl 1"

text \<open>
  Of the configuration file the run depends on two strings; the paths, the GPIO line
  number and the EEPROM address go to the platform calls, whose results the platform
  gives.
\<close>

record config =
  mdio_reg_writes :: string
  valid_mac_address_prefix :: string

text \<open>
  The two loops that pack the MAC into register values,
  \<^verbatim>\<open>mac_high_regval |= (macbuf[i] << (8 * i))\<close> for \<open>i\<close> from 0 to 3 and
  \<^verbatim>\<open>mac_low_regval |= (macbuf[i] << (8 * (i - 4)))\<close> for \<open>i\<close> from 4 to 5, on 32 bits,
  and the two loops that unpack a MAC from the values read back.
\<close>

definition mac_high_regval :: "u8 list \<Rightarrow> u32" where
  "mac_high_regval macbuf =
     foldl (\<lambda>regval i. regval OR push_bit (8 * i) (ucast (macbuf ! i))) 0 [0..<4]"

definition mac_low_regval :: "u8 list \<Rightarrow> u32" where
  "mac_low_regval macbuf =
     foldl (\<lambda>regval i. regval OR push_bit (8 * (i - 4)) (ucast (macbuf ! i))) 0 [4..<6]"

definition readback_mac :: "u32 \<Rightarrow> u32 \<Rightarrow> u8 list" where
  "readback_mac mac_high_regval2 mac_low_regval2 =
     map (\<lambda>i. ucast (drop_bit (8 * i) mac_high_regval2 AND 0xff)) [0..<4] @
     map (\<lambda>i. ucast (drop_bit (8 * (i - 4)) mac_low_regval2 AND 0xff)) [4..<6]"

text \<open>The \<^verbatim>\<open>for\<close> loop over the MDIO operations: \<open>Some 1\<close> is \<^verbatim>\<open>return 1\<close>.\<close>

fun mdio_ops_loop :: "platform \<Rightarrow> MDIO_Operation list \<Rightarrow> world \<Rightarrow> int option \<times> world" where
  "mdio_ops_loop p [] w = (None, w)"
| "mdio_ops_loop p (mdio_op # mdio_ops) w =
     (case mdio_phy_write p (port mdio_op) (dev mdio_op) (reg mdio_op) (val mdio_op) w of
        (rc, w1) \<Rightarrow> if rc < 0 then (Some 1, w1) else mdio_ops_loop p mdio_ops w1)"

text \<open>
  The end of the initialize branch, from the comment "Resume 10GbE configuration" on:
  validation, the three register writes, the release of the reset line, the readback and
  its comparison.
\<close>

definition gbe_configure :: "platform \<Rightarrow> string \<Rightarrow> u8 list \<Rightarrow> world \<Rightarrow> outcome \<times> world" where
  "gbe_configure p valid_mac_prefix macbuf w =
     (case format_mac macbuf of Inl e \<Rightarrow> (Uncaught e, w) | Inr _ \<Rightarrow>
      case validate_mac_address valid_mac_prefix macbuf True of
        Inl e \<Rightarrow> (Uncaught e, w)
      | Inr valid \<Rightarrow>
      if \<not> valid then (Exit 1, w)
      else case easymem_safewrite32 p Gbe_registers GBE_REG_USR_MAC_HIGH
                  (mac_high_regval macbuf) w of (rc1, w1) \<Rightarrow>
      if rc1 < 0 then (Exit 1, w1)
      else case easymem_safewrite32 p Gbe_registers GBE_REG_USR_MAC_LOW
                  (mac_low_regval macbuf) w1 of (rc2, w2) \<Rightarrow>
      if rc2 < 0 then (Exit 1, w2)
      else case easymem_safewrite32 p Gbe_registers GBE_REG_USR_MAC_CFG 1
                  (usleep GBE_RST_SETTLE_US w2) of (rc3, w3) \<Rightarrow>
      if rc3 < 0 then (Exit 1, w3)
      else case gpiod_line_set_value p 0 w3 of (rc4, w4) \<Rightarrow>
      if rc4 < 0 then (Exit 1, w4)
      else case easymem_saferead32 p Gbe_registers GBE_REG_SYSTEM_MAC_HIGH
                  (usleep GBE_RST_SETTLE_US w4) of ((rc5, mac_high_regval2), w5) \<Rightarrow>
      if rc5 < 0 then (Exit 1, w5)
      else case easymem_saferead32 p Gbe_registers GBE_REG_SYSTEM_MAC_LOW w5 of
             ((rc6, mac_low_regval2), w6) \<Rightarrow>
      if rc6 < 0 then (Exit 1, w6)
      else if mac_high_regval macbuf \<noteq> mac_high_regval2
              \<or> mac_low_regval macbuf AND 0x0000ffff \<noteq> mac_low_regval2 AND 0x0000ffff
      then
        case format_mac macbuf of Inl e \<Rightarrow> (Uncaught e, w6) | Inr _ \<Rightarrow>
        case format_mac (readback_mac mac_high_regval2 mac_low_regval2) of
          Inl e \<Rightarrow> (Uncaught e, w6)
        | Inr _ \<Rightarrow>
        case UNSAFE_REG32 p Gbe_registers GBE_REG_SYSTEM_MAC_LOW (usleep 1000000 w6) of
          (_, w7) \<Rightarrow>
        case gpiod_line_set_value p 1 w7 of (rc8, w8) \<Rightarrow>
        if rc8 < 0 then (Exit 1, w8) else (Exit 1, w8)
      else (Exit 0, w6))"

definition do_initialize :: "platform \<Rightarrow> config \<Rightarrow> u8 list \<Rightarrow> world \<Rightarrow> outcome \<times> world" where
  "do_initialize p cfg macbuf w =
     (case gpiod_line_request_output p 1 w of (rc1, w1) \<Rightarrow>
      if rc1 < 0 then (Exit 1, w1)
      else case gpiod_line_set_value p 1 w1 of (rc2, w2) \<Rightarrow>
      if rc2 < 0 then (Exit 1, w2)
      else case mdio_ops_loop p (parse_mdio_writes (mdio_reg_writes cfg))
                  (usleep GBE_RST_SETTLE_US w2) of
        (Some rc, w3) \<Rightarrow> (Exit rc, w3)
      | (None, w3) \<Rightarrow> gbe_configure p (valid_mac_address_prefix cfg) macbuf w3)"

definition do_query :: "config \<Rightarrow> u8 list \<Rightarrow> world \<Rightarrow> outcome \<times> world" where
  "do_query cfg macbuf w =
     (case format_mac macbuf of Inl e \<Rightarrow> (Uncaught e, w) | Inr _ \<Rightarrow>
      case validate_mac_address (valid_mac_address_prefix cfg) macbuf False of
        Inl e \<Rightarrow> (Uncaught e, w)
      | Inr valid \<Rightarrow> if \<not> valid then (Exit 1, w) else (Exit 0, w))"

definition do_store :: "platform \<Rightarrow> config \<Rightarrow> string \<Rightarrow> world \<Rightarrow> outcome \<times> world" where
  "do_store p cfg set_mac w =
     (case parse_mac set_mac of None \<Rightarrow> (Exit 1, w) | Some macbuf2 \<Rightarrow>
      case validate_mac_address (valid_mac_address_prefix cfg) macbuf2 True of
        Inl e \<Rightarrow> (Uncaught e, w)
      | Inr valid \<Rightarrow>
      if \<not> valid then (Exit 1, w)
      else case i2c_write p macbuf2 w of (n1, w1) \<Rightarrow>
      if n1 \<noteq> 6 then (Exit 1, w1)
      else case i2c_read p 6 (sleep 1 w1) of ((n2, macbuf), w2) \<Rightarrow>
      if n2 \<noteq> 6 then (Exit 1, w2)
      else if take 6 macbuf \<noteq> take 6 macbuf2 then (Exit 1, w2)
      else (Exit 0, w2))"

text \<open>
  \<^verbatim>\<open>main\<close>: the options, the configuration file (\<open>ini\<close> gives its content for a path),
  the resources, the read of the stored MAC, and the branch of the action.
\<close>

definition main :: "platform \<Rightarrow> (string \<Rightarrow> config) \<Rightarrow> action \<Rightarrow> getopt list \<Rightarrow> outcome \<times> world" where
  "main p ini action0 argv =
     (case getopt_loop argv (''/etc/10ginit.ini'', action0, []) of
        Inl rc \<Rightarrow> (Exit rc, start)
      | Inr (config_file_path, act, set_mac) \<Rightarrow>
      if act = DO_NOTHING then (Exit 1, start)
      else if map_gbe_rc p < 0 then (Exit 0, start)
      else if length (mdio_reg_writes (ini config_file_path)) \<noteq> 0 \<and> map_mdio_rc p < 0
      then (Exit 0, start)
      else if \<not> realpath_ok p then (Exit 1, start)
      else if \<not> gpiod_chip_open_ok p then (Exit 1, start)
      else if \<not> gpiod_chip_get_line_ok p then (Exit 1, start)
      else if open_eeprom_fd p < 0 then (Exit 1, start)
      else case i2c_read p 6 start of ((n, macbuf), w) \<Rightarrow>
      if n \<noteq> 6 then (Exit 1, w)
      else if act = DO_QUERY then do_query (ini config_file_path) macbuf w
      else if act = DO_STORE then do_store p (ini config_file_path) set_mac w
      else if act = DO_INITIALIZE then do_initialize p (ini config_file_path) macbuf w
      else (Exit 0, w))"

section \<open>Vocabulary of the statements\<close>


text \<open>
  What the platform answers to a run of calls that starts at call number \<open>c\<close>:
  \<open>n\<close> register writes that succeed, \<open>n\<close> reads of the control register that succeed
  with the BUSY bit set, one such read with the BUSY bit clear.
\<close>

definition writes_ok :: "platform \<Rightarrow> nat \<Rightarrow> nat \<Rightarrow> bool" where
  "writes_ok p c n = list_all (\<lambda>k. 0 \<le> safewrite32_rc p (c + k)) [0..<n]"

definition polls_busy :: "platform \<Rightarrow> nat \<Rightarrow> nat \<Rightarrow> bool" where
  "polls_busy p c n =
     list_all (\<lambda>k. 0 \<le> fst (saferead32_res p (c + k))
                    \<and> snd (saferead32_res p (c + k)) AND MDIO_CTRL_REQ_BUSY_BIT \<noteq> 0)
       [0..<n]"

definition poll_clear :: "platform \<Rightarrow> nat \<Rightarrow> bool" where
  "poll_clear p c =
     (0 \<le> fst (saferead32_res p c) \<and> snd (saferead32_res p c) AND MDIO_CTRL_REQ_BUSY_BIT = 0)"

text \<open>One poll that found the BUSY bit set: the read, then the sleep.\<close>

definition busy_poll :: "event list" where
  "busy_poll = [Saferead32 Mdio_registers MDIO_CTRL_REG_OFFSET, Usleep MDIO_STATUS_POLL_DELAY]"

text \<open>
  What each phase of a transaction does before it polls: the address phase of
  \<^verbatim>\<open>mdio_phy_addr\<close>, the data phase of \<^verbatim>\<open>mdio_phy_write\<close>, the data phase of
  \<^verbatim>\<open>mdio_phy_read\<close>.
\<close>

definition address_phase :: "u32 \<Rightarrow> u32 \<Rightarrow> u32 \<Rightarrow> event list" where
  "address_phase PortAddr DeviceAddr RegAddr =
     [Safewrite32 Mdio_registers MDIO_ADDRESS1_OFFSET (MDIO_ADDR1 MDIO_OP_ADDR PortAddr DeviceAddr),
      Usleep 10000,
      Safewrite32 Mdio_registers MDIO_ADDRESS2_OFFSET RegAddr,
      Usleep 10000,
      Safewrite32 Mdio_registers MDIO_CTRL_REG_OFFSET (MDIO_CTRL_ENA_BIT OR MDIO_CTRL_REQ_BUSY_BIT),
      Usleep 10000]"

definition write_phase :: "u32 \<Rightarrow> u32 \<Rightarrow> u32 \<Rightarrow> event list" where
  "write_phase PortAddr DeviceAddr WriteBuf =
     [Safewrite32 Mdio_registers MDIO_ADDRESS1_OFFSET (MDIO_ADDR1 MDIO_OP_WR PortAddr DeviceAddr),
      Safewrite32 Mdio_registers MDIO_WRITE_BUF_OFFSET WriteBuf,
      Safewrite32 Mdio_registers MDIO_CTRL_REG_OFFSET (MDIO_CTRL_ENA_BIT OR MDIO_CTRL_REQ_BUSY_BIT)]"

definition read_phase :: "u32 \<Rightarrow> u32 \<Rightarrow> event list" where
  "read_phase PortAddr DeviceAddr =
     [Safewrite32 Mdio_registers MDIO_ADDRESS1_OFFSET (MDIO_ADDR1 MDIO_OP_RD PortAddr DeviceAddr),
      Safewrite32 Mdio_registers MDIO_CTRL_REG_OFFSET (MDIO_CTRL_ENA_BIT OR MDIO_CTRL_REQ_BUSY_BIT)]"

text \<open>The world after \<open>n\<close> more calls that left the events \<open>evs\<close>.\<close>

definition after :: "world \<Rightarrow> nat \<Rightarrow> event list \<Rightarrow> world" where
  "after w n evs = w\<lparr>calls := calls w + n, trace := trace w @ evs\<rparr>"

text \<open>The resources \<^verbatim>\<open>main\<close> acquires before it begins work.\<close>

definition resources_ok :: "platform \<Rightarrow> config \<Rightarrow> bool" where
  "resources_ok p cfg =
     (0 \<le> map_gbe_rc p \<and> (mdio_reg_writes cfg = [] \<or> 0 \<le> map_mdio_rc p) \<and> realpath_ok p
      \<and> gpiod_chip_open_ok p \<and> gpiod_chip_get_line_ok p \<and> 0 \<le> open_eeprom_fd p)"

text \<open>
  What a run of \<open>gbe_configure\<close> from \<open>w\<close> has done when it has read both registers back,
  and what it has done after the rollback.
\<close>

definition programmed :: "u32 \<Rightarrow> u32 \<Rightarrow> event list" where
  "programmed high low =
     [Safewrite32 Gbe_registers GBE_REG_USR_MAC_HIGH high,
      Safewrite32 Gbe_registers GBE_REG_USR_MAC_LOW low,
      Usleep GBE_RST_SETTLE_US,
      Safewrite32 Gbe_registers GBE_REG_USR_MAC_CFG 1,
      Gpiod_line_set_value 0,
      Usleep GBE_RST_SETTLE_US,
      Saferead32 Gbe_registers GBE_REG_SYSTEM_MAC_HIGH,
      Saferead32 Gbe_registers GBE_REG_SYSTEM_MAC_LOW]"

definition rollback :: "event list" where
  "rollback = [Usleep 1000000, Unsafe_reg32 Gbe_registers GBE_REG_SYSTEM_MAC_LOW,
               Gpiod_line_set_value 1]"

text \<open>\<open>gbe_configure\<close> gets as far as the comparison of the readback.\<close>

definition reaches_readback :: "platform \<Rightarrow> string \<Rightarrow> u8 list \<Rightarrow> world \<Rightarrow> bool" where
  "reaches_readback p valid_mac_prefix macbuf w =
     (validate_mac_address valid_mac_prefix macbuf True = Inr True
      \<and> writes_ok p (calls w) 3 \<and> 0 \<le> gpiod_rc p (calls w + 3)
      \<and> 0 \<le> fst (saferead32_res p (calls w + 4)) \<and> 0 \<le> fst (saferead32_res p (calls w + 5)))"

section \<open>Boards for concrete runs\<close>

text \<open>
  A board on which every call succeeds, whose EEPROM holds \<^verbatim>\<open>aa:bb:cc:dd:ee:ff\<close> and whose
  register reads are given; and configuration files.
\<close>

definition rc_ok :: "nat \<Rightarrow> int" where
  "rc_ok n = 0"

definition count_six :: "nat \<Rightarrow> int" where
  "count_six n = 6"

definition reg_zero :: "nat \<Rightarrow> u32" where
  "reg_zero n = 0"

definition eeprom_byte :: "nat \<Rightarrow> u8" where
  "eeprom_byte i = [0xaa, 0xbb, 0xcc, 0xdd, 0xee, 0xff] ! i"

definition eeprom_aabbccddeeff :: "nat \<Rightarrow> int \<times> (nat \<Rightarrow> u8)" where
  "eeprom_aabbccddeeff n = (6, eeprom_byte)"

definition eeprom_unreadable :: "nat \<Rightarrow> int \<times> (nat \<Rightarrow> u8)" where
  "eeprom_unreadable n = (- 1, eeprom_byte)"

definition board :: "(nat \<Rightarrow> int \<times> u32) \<Rightarrow> platform" where
  "board reads =
     \<lparr>map_gbe_rc = 0, map_mdio_rc = 0, realpath_ok = True, gpiod_chip_open_ok = True,
      gpiod_chip_get_line_ok = True, open_eeprom_fd = 3, safewrite32_rc = rc_ok,
      saferead32_res = reads, unsafe_reg32_val = reg_zero, gpiod_rc = rc_ok,
      i2c_read_res = eeprom_aabbccddeeff, i2c_write_rc = count_six\<rparr>"

definition reads_idle :: "nat \<Rightarrow> int \<times> u32" where
  "reads_idle n = (0, 0x8)"

definition reads_busy :: "nat \<Rightarrow> int \<times> u32" where
  "reads_busy n = (0, 0x9)"

definition reads_busy_after :: "nat \<Rightarrow> nat \<Rightarrow> int \<times> u32" where
  "reads_busy_after m n = (if n \<le> m then (0, 0x8) else (0, 0x9))"

definition reads_fail :: "nat \<Rightarrow> int \<times> u32" where
  "reads_fail n = (- 1, 0)"

definition reads_big_endian :: "nat \<Rightarrow> int \<times> u32" where
  "reads_big_endian n = (if n = 7 then (0, 0xaabbccdd) else (0, 0x0000eeff))"

definition reads_as_written :: "nat \<Rightarrow> int \<times> u32" where
  "reads_as_written n = (if n = 7 then (0, 0xddccbbaa) else (0, 0x1234ffee))"

definition no_policy :: "string \<Rightarrow> config" where
  "no_policy path = \<lparr>mdio_reg_writes = [], valid_mac_address_prefix = []\<rparr>"

definition phy_policy :: "string \<Rightarrow> config" where
  "phy_policy path =
     \<lparr>mdio_reg_writes = ''0.1:8000=4000 0.1:8001=0'', valid_mac_address_prefix = ''aa:bb''\<rparr>"

section \<open>Basic facts\<close>

declare parse_mdio_loop.simps [simp del]
declare wait_busy.simps [simp del]

lemmas scan_defs = sscanf_def c_str_def conv_x_def conv_d_def isspace_def split_sign_def
  has_0x_prefix_def isxdigit_def isdigit_def digits_value_def digit_value_def
  strtoul_value_def strtol_value_def scan_failed_def

lemmas mdio_consts = MDIO_OP_ADDR_def MDIO_OP_WR_def MDIO_OP_RD_def MDIO_ADDRESS1_OFFSET_def
  MDIO_ADDRESS2_OFFSET_def MDIO_WRITE_BUF_OFFSET_def MDIO_READ_BUF_OFFSET_def
  MDIO_CTRL_REG_OFFSET_def MDIO_CTRL_ENA_BIT_def MDIO_CTRL_REQ_BUSY_BIT_def
  MDIO_STATUS_POLL_LIMIT_def MDIO_STATUS_POLL_DELAY_def

lemmas gbe_consts = GBE_RST_SETTLE_US_def GBE_REG_USR_MAC_HIGH_def GBE_REG_USR_MAC_LOW_def
  GBE_REG_SYSTEM_MAC_HIGH_def GBE_REG_SYSTEM_MAC_LOW_def GBE_REG_USR_MAC_CFG_def

lemmas call_defs = easymem_safewrite32_def easymem_saferead32_def UNSAFE_REG32_def usleep_def
  sleep_def driven_def gpiod_line_request_output_def gpiod_line_set_value_def i2c_read_def
  i2c_write_def called_def

lemmas board_defs = board_def rc_ok_def count_six_def reg_zero_def eeprom_byte_def
  eeprom_aabbccddeeff_def eeprom_unreadable_def reads_idle_def reads_busy_def
  reads_busy_after_def reads_fail_def reads_big_endian_def reads_as_written_def
  no_policy_def phy_policy_def

lemma writes_ok_iff: "writes_ok p c n \<longleftrightarrow> (\<forall>k<n. 0 \<le> safewrite32_rc p (c + k))"
  by (auto simp: writes_ok_def list_all_iff)

lemma polls_busy_iff:
  "polls_busy p c n \<longleftrightarrow>
     (\<forall>k<n. 0 \<le> fst (saferead32_res p (c + k))
            \<and> snd (saferead32_res p (c + k)) AND MDIO_CTRL_REQ_BUSY_BIT \<noteq> 0)"
  by (auto simp: polls_busy_def list_all_iff)

section \<open>Scanning and formatting\<close>

lemma parse_mdio_loop_end: "\<not> i < length s \<Longrightarrow> parse_mdio_loop s i ops = ops"
  by (subst parse_mdio_loop.simps) simp

lemma parse_mdio_loop_stop:
  "i < length s \<Longrightarrow> fst (sscanf (c_str (drop i s)) mdio_format) \<noteq> 4 \<Longrightarrow>
   parse_mdio_loop s i ops = ops"
  by (subst parse_mdio_loop.simps) (auto split: prod.splits)

lemma parse_mdio_loop_step:
  "i < length s \<Longrightarrow> sscanf (c_str (drop i s)) mdio_format = (4, vs) \<Longrightarrow>
   parse_mdio_loop s i ops =
   parse_mdio_loop s (i + stored_incr vs)
     (ops @ [\<lparr>port = of_int (vs ! 0), dev = of_int (vs ! 1),
              reg = of_int (vs ! 2), val = of_int (vs ! 3)\<rparr>])"
  by (subst parse_mdio_loop.simps) simp

lemma scan_first_token:
  "sscanf (c_str (drop 0 ''0.1:8000=4000 0.1:8001=0'')) mdio_format
     = (4, [0, 1, 0x8000, 0x4000, 14])"
  by (simp add: scan_defs mdio_format_def)

lemma scan_second_token:
  "sscanf (c_str (drop 14 ''0.1:8000=4000 0.1:8001=0'')) mdio_format
     = (4, [0, 1, 0x8001, 0, 10])"
  by (simp add: scan_defs mdio_format_def)

lemma scan_token_before_garbage:
  "sscanf (c_str (drop 0 ''0.1:8000=4000 garbage'')) mdio_format
     = (4, [0, 1, 0x8000, 0x4000, 14])"
  by (simp add: scan_defs mdio_format_def)

lemma scan_garbage:
  "sscanf (c_str ''garbage'') mdio_format = (0, [])"
  by (simp add: scan_defs mdio_format_def)

lemma scan_port_33:
  "sscanf (c_str (drop 0 ''33.1:8000=4000'')) mdio_format = (4, [33, 1, 0x8000, 0x4000, 14])"
  by (simp add: scan_defs mdio_format_def)

lemma parse_two_tokens:
  "parse_mdio_writes ''0.1:8000=4000 0.1:8001=0'' =
     [\<lparr>port = 0, dev = 1, reg = 0x8000, val = 0x4000\<rparr>,
      \<lparr>port = 0, dev = 1, reg = 0x8001, val = 0x0\<rparr>]"
  unfolding parse_mdio_writes_def
  apply (subst parse_mdio_loop_step [OF _ scan_first_token])
   apply simp
  apply (simp add: stored_incr_def)
  apply (subst parse_mdio_loop_step [OF _ scan_second_token])
   apply simp
  apply (simp add: stored_incr_def parse_mdio_loop_end)
  done

lemma parse_token_then_garbage:
  "parse_mdio_writes ''0.1:8000=4000 garbage'' =
     [\<lparr>port = 0, dev = 1, reg = 0x8000, val = 0x4000\<rparr>]"
  unfolding parse_mdio_writes_def
  apply (subst parse_mdio_loop_step [OF _ scan_token_before_garbage])
   apply simp
  apply (simp add: stored_incr_def)
  apply (subst parse_mdio_loop_stop)
    apply simp
   apply (simp add: scan_garbage)
  apply simp
  done

lemma parse_port_33:
  "parse_mdio_writes ''33.1:8000=4000'' = [\<lparr>port = 33, dev = 1, reg = 0x8000, val = 0x4000\<rparr>]"
  unfolding parse_mdio_writes_def
  apply (subst parse_mdio_loop_step [OF _ scan_port_33])
   apply simp
  apply (simp add: stored_incr_def parse_mdio_loop_end)
  done

text \<open>
  C7. Parsing the MDIO configuration string \<^verbatim>\<open>"0.1:8000=4000 0.1:8001=0"\<close> yields exactly
  the two operations port 0, device 1, register 0x8000, value 0x4000 and port 0, device 1,
  register 0x8001, value 0, in that order.
\<close>

theorem parse_mdio_writes_two_operations:
  "parse_mdio_writes ''0.1:8000=4000 0.1:8001=0'' =
     [\<lparr>port = 0, dev = 1, reg = 0x8000, val = 0x4000\<rparr>,
      \<lparr>port = 0, dev = 1, reg = 0x8001, val = 0x0\<rparr>]"
  by (rule parse_two_tokens)



























section \<open>The address word\<close>

lemma and_3_take_bit: "(x::u32) AND 0x3 = take_bit 2 x"
  by (simp add: take_bit_eq_mask mask_eq_exp_minus_1)

lemma and_1f_take_bit: "(x::u32) AND 0x1f = take_bit 5 x"
  by (simp add: take_bit_eq_mask mask_eq_exp_minus_1)

lemma unat_take_bit_mod: "unat (take_bit n (x::u32)) = unat x mod 2 ^ n"
proof -
  have "unat (take_bit n x) = take_bit n (unat x)" by (rule unsigned_take_bit_eq)
  also have "\<dots> = unat x mod 2 ^ n" by (rule take_bit_eq_mod)
  finally show ?thesis .
qed

lemma take_bit_as_of_nat: "take_bit n (x::u32) = of_nat (unat x mod 2 ^ n)"
proof -
  have "unat x mod 2 ^ n < 2 ^ LENGTH(32)"
    by (rule le_less_trans [OF mod_less_eq_dividend]) (rule unsigned_less)
  then have "unat (of_nat (unat x mod 2 ^ n) :: u32) = unat x mod 2 ^ n"
    by (simp only: unat_of_nat mod_less)
  then show ?thesis
    by (simp only: word_unat_eq_iff unat_take_bit_mod)
qed

lemma unat_MDIO_ADDR1:
  "unat (MDIO_ADDR1 opc prt dv) =
     (unat opc mod 4) * 2 ^ 10 + (unat prt mod 32) * 2 ^ 5 + unat dv mod 32"
proof -
  let ?n = "(unat opc mod 4) * 2 ^ 10 + (unat prt mod 32) * 2 ^ 5 + unat dv mod 32"
  have eq: "of_nat ?n = MDIO_ADDR1 opc prt dv"
    unfolding MDIO_ADDR1_def and_3_take_bit and_1f_take_bit take_bit_as_of_nat
    by (simp add: push_bit_eq_mult)
  have bound: "?n < 2 ^ LENGTH(32)"
  proof -
    have "unat opc mod 4 < 4" "unat prt mod 32 < 32" "unat dv mod 32 < 32" by simp_all
    then show ?thesis by simp
  qed
  from eq bound show ?thesis by (rule of_nat_inverse)
qed

lemma MDIO_ADDR1_mod_32: "MDIO_ADDR1 opc (prt mod 32) (dv mod 32) = MDIO_ADDR1 opc prt dv"
  by (simp add: word_unat_eq_iff unat_MDIO_ADDR1 unat_mod)

lemma mdio_phy_addr_mod_32:
  "mdio_phy_addr p (prt mod 32) (dv mod 32) r w = mdio_phy_addr p prt dv r w"
  by (simp add: mdio_phy_addr_def MDIO_ADDR1_mod_32 cong: prod.case_cong if_cong)

lemma mdio_phy_write_mod_32:
  "mdio_phy_write p (prt mod 32) (dv mod 32) r v w = mdio_phy_write p prt dv r v w"
  by (simp add: mdio_phy_write_def MDIO_ADDR1_mod_32 mdio_phy_addr_mod_32
        cong: prod.case_cong if_cong)

text \<open>
  C9. The address word is a function of opcode, port and device alone: (opcode mod 4)
  shifted left by 10, plus (port mod 32) shifted left by 5, plus (device mod 32). The
  parser accepts a port outside 0..31 (\<^verbatim>\<open>"33.1:8000=4000"\<close> gives port 33), and the
  transaction reduces port and device modulo 32: a write to port 33 is the write to port 1.
\<close>

theorem MDIO_ADDR1_packing:
  "unat (MDIO_ADDR1 opc prt dv) =
     (unat opc mod 4) * 2 ^ 10 + (unat prt mod 32) * 2 ^ 5 + unat dv mod 32
   \<and> MDIO_ADDR1 opc prt dv = MDIO_ADDR1 opc (prt mod 32) (dv mod 32)
   \<and> mdio_phy_write p prt dv r v w = mdio_phy_write p (prt mod 32) (dv mod 32) r v w
   \<and> parse_mdio_writes ''33.1:8000=4000'' =
       [\<lparr>port = 33, dev = 1, reg = 0x8000, val = 0x4000\<rparr>]
   \<and> MDIO_ADDR1 opc 33 dv = MDIO_ADDR1 opc 1 dv
   \<and> mdio_phy_write p 33 dv r v w = mdio_phy_write p 1 dv r v w"
proof -
  have "MDIO_ADDR1 opc 33 dv = MDIO_ADDR1 opc 1 dv"
    by (simp add: MDIO_ADDR1_def)
  moreover have "mdio_phy_write p 33 dv r v w = mdio_phy_write p 1 dv r v w"
    by (simp add: mdio_phy_write_def mdio_phy_addr_def MDIO_ADDR1_def
          cong: prod.case_cong if_cong)
  ultimately show ?thesis
    by (simp only: unat_MDIO_ADDR1 MDIO_ADDR1_mod_32 mdio_phy_write_mod_32 parse_port_33)
qed

section \<open>Formatting a MAC and scanning it back\<close>

lemma nibble_cases:
  "d < 16 \<Longrightarrow> d \<in> {0, 1, 2, 3, 4, 5, 6, 7, 8, 9, 10, 11, 12, 13, 14, 15 :: nat}"
  by simp arith

lemma hexdigit_props:
  assumes "n < 16"
  shows "isxdigit (hexdigit n)" and "digit_value (hexdigit n) = int n"
    and "\<not> isspace (hexdigit n)" and "hexdigit n \<noteq> CHR ''-''" and "hexdigit n \<noteq> CHR ''+''"
    and "hexdigit n \<noteq> CHR ''x''" and "hexdigit n \<noteq> CHR ''X''" and "hexdigit n \<noteq> CHR 0x00"
  using nibble_cases [OF assms]
  by (elim insertE emptyE;
      simp add: hexdigit_def isxdigit_def isdigit_def digit_value_def isspace_def)+

lemma nibbles_of_byte: "unat (b::u8) div 16 < 16" "unat b mod 16 < 16"
proof -
  have "unat b < 256" using unsigned_less [of b] by simp
  then show "unat b div 16 < 16" "unat b mod 16 < 16" by simp_all
qed

text \<open>
  \<^verbatim>\<open>%hhx\<close> reads the two digits that \<^verbatim>\<open>%02hhx\<close> printed, when the end of the string or
  a colon follows them.
\<close>

lemma conv_x_fmt_02hhx:
  assumes "rest = [] \<or> hd rest = CHR '':''"
  shows "conv_x (fmt_02hhx b @ rest) = Converted (uint b) rest"
proof -
  let ?h = "hexdigit (unat b div 16)" and ?l = "hexdigit (unat b mod 16)"
  note hi = nibbles_of_byte(1) [of b] and lo = nibbles_of_byte(2) [of b]
  have tw: "takeWhile isxdigit rest = []"
    using assms by (cases rest) (auto simp: isxdigit_def isdigit_def)
  have v: "digits_value 16 [?h, ?l] = uint b"
    using hexdigit_props(2) [OF hi] hexdigit_props(2) [OF lo]
    by (simp add: digits_value_def zdiv_int zmod_int)
  have u: "uint b < 256" using uint_lt2p [of b] by simp
  have "\<not> has_0x_prefix (?h # ?l # rest)"
    using hexdigit_props(6,7) [OF lo] by (simp add: has_0x_prefix_def)
  moreover have "split_sign (?h # ?l # rest) = (False, ?h # ?l # rest)"
    using hexdigit_props(4,5) [OF hi] by (simp add: split_sign_def)
  moreover have "dropWhile isspace (?h # ?l # rest) = ?h # ?l # rest"
    using hexdigit_props(3) [OF hi] by simp
  moreover have "takeWhile isxdigit (?h # ?l # rest) = [?h, ?l]"
    using hexdigit_props(1) [OF hi] hexdigit_props(1) [OF lo] tw by simp
  moreover have "strtoul_value False (uint b) = uint b"
    using u by (simp add: strtoul_value_def)
  ultimately show ?thesis
    using v by (simp add: conv_x_def fmt_02hhx_def)
qed

lemma conv_x_fmt_02hhx_end: "conv_x (fmt_02hhx b) = Converted (uint b) []"
  using conv_x_fmt_02hhx [of "[]" b] by simp

lemma c_str_snprintf_mac: "c_str (snprintf_mac m) = snprintf_mac m"
proof -
  have "\<forall>c \<in> set (fmt_02hhx b). c \<noteq> CHR 0x00" for b
    using hexdigit_props(8) [OF nibbles_of_byte(1) [of b]]
      hexdigit_props(8) [OF nibbles_of_byte(2) [of b]]
    by (simp add: fmt_02hhx_def)
  then have "\<forall>c \<in> set (snprintf_mac m). c \<noteq> CHR 0x00"
    by (auto simp: snprintf_mac_def)
  then show ?thesis by (simp add: c_str_def)
qed

lemma length_snprintf_mac: "length (snprintf_mac m) = 17"
  by (simp add: snprintf_mac_def fmt_02hhx_def)

lemma format_mac_Inr: "format_mac m = Inr (snprintf_mac m)"
  by (simp add: format_mac_def length_snprintf_mac)

lemma sscanf_snprintf_mac:
  "sscanf (snprintf_mac m) mac_format =
     (6, [uint (m ! 0), uint (m ! 1), uint (m ! 2), uint (m ! 3), uint (m ! 4), uint (m ! 5)])"
  by (simp add: sscanf_def mac_format_def snprintf_mac_def conv_x_fmt_02hhx
        conv_x_fmt_02hhx_end)

lemma six_bytes: "length m = 6 \<Longrightarrow> m = [m ! 0, m ! 1, m ! 2, m ! 3, m ! 4, m ! 5]"
  by (cases m; simp; cases "tl m"; simp; cases "tl (tl m)"; simp; cases "tl (tl (tl m))"; simp;
      cases "tl (tl (tl (tl m)))"; simp; cases "tl (tl (tl (tl (tl m))))"; simp)

lemma parse_snprintf_mac: "length m = 6 \<Longrightarrow> parse_mac (snprintf_mac m) = Some m"
  using six_bytes [of m]
  by (simp add: parse_mac_def c_str_snprintf_mac sscanf_snprintf_mac)

lemma snprintf_mac_aabbccddeeff:
  "snprintf_mac [0xaa, 0xbb, 0xcc, 0xdd, 0xee, 0xff] = ''aa:bb:cc:dd:ee:ff''"
  by (simp add: snprintf_mac_def fmt_02hhx_def hexdigit_def)

text \<open>
  C5. For every array of 6 bytes, \<^verbatim>\<open>format_mac\<close> returns a string (it does not throw),
  and scanning that string as the store action scans its argument yields the 6 bytes.
\<close>

theorem parse_format_mac_roundtrip:
  "length macbuf = 6 \<Longrightarrow>
   \<exists>fmac. format_mac macbuf = Inr fmac \<and> parse_mac fmac = Some macbuf"
  by (simp add: format_mac_Inr parse_snprintf_mac)

theorem parse_format_mac_roundtrip_witness:
  "length [0xaa, 0xbb, 0xcc, 0xdd, 0xee, 0xff :: u8] = 6
   \<and> format_mac [0xaa, 0xbb, 0xcc, 0xdd, 0xee, 0xff] = Inr ''aa:bb:cc:dd:ee:ff''
   \<and> parse_mac ''aa:bb:cc:dd:ee:ff'' = Some [0xaa, 0xbb, 0xcc, 0xdd, 0xee, 0xff]"
proof -
  have len: "length [0xaa, 0xbb, 0xcc, 0xdd, 0xee, 0xff :: u8] = 6" by simp
  have fmt: "format_mac [0xaa, 0xbb, 0xcc, 0xdd, 0xee, 0xff] = Inr ''aa:bb:cc:dd:ee:ff''"
    by (simp add: format_mac_Inr snprintf_mac_aabbccddeeff)
  from parse_format_mac_roundtrip [OF len] fmt len show ?thesis by simp
qed

section \<open>Validation\<close>

lemma snprintf_mac_inj:
  assumes "length m = 6" "length m' = 6" "snprintf_mac m = snprintf_mac m'"
  shows "m = m'"
proof -
  have "Some m = parse_mac (snprintf_mac m)" using assms(1) by (simp add: parse_snprintf_mac)
  also have "\<dots> = Some m'" using assms(2,3) by (simp add: parse_snprintf_mac)
  finally show ?thesis by simp
qed

lemma replicate_6: "replicate 6 x = [x, x, x, x, x, x]"
  by (simp add: eval_nat_numeral)

lemma snprintf_mac_zero:
  "length m = 6 \<Longrightarrow> snprintf_mac m = ''00:00:00:00:00:00'' \<longleftrightarrow> m = replicate 6 0"
proof -
  assume len: "length m = 6"
  have z: "snprintf_mac (replicate 6 0) = ''00:00:00:00:00:00''"
    by (simp add: replicate_6 snprintf_mac_def fmt_02hhx_def hexdigit_def)
  show ?thesis
    using snprintf_mac_inj [OF len, of "replicate 6 0"] z by auto
qed

lemma snprintf_mac_ones:
  "length m = 6 \<Longrightarrow> snprintf_mac m = ''ff:ff:ff:ff:ff:ff'' \<longleftrightarrow> m = replicate 6 0xff"
proof -
  assume len: "length m = 6"
  have z: "snprintf_mac (replicate 6 0xff) = ''ff:ff:ff:ff:ff:ff''"
    by (simp add: replicate_6 snprintf_mac_def fmt_02hhx_def hexdigit_def)
  show ?thesis
    using snprintf_mac_inj [OF len, of "replicate 6 0xff"] z by auto
qed

lemma low_bit: "(b::u8) AND 0x01 \<noteq> 0 \<longleftrightarrow> bit b 0"
  by (simp add: and_one_eq bit_0 mod_2_eq_odd)

lemma take_is_prefix_iff: "take (length xs) ys = xs \<longleftrightarrow> prefix xs ys"
  by (metis append_eq_conv_conj prefix_def)

text \<open>
  C4. With a non-empty prefix, \<^verbatim>\<open>validate_mac_address\<close> returns false for exactly these
  6-byte addresses: all zero, all ones, the low bit of the first byte set, the formatted
  string (17 characters) not beginning with the prefix; it returns true for every other one.
  With the empty prefix it returns true for every address. It never throws.
\<close>

theorem validate_mac_address_rejects_exactly:
  "(length macbuf = 6 \<and> valid_mac_prefix \<noteq> [] \<longrightarrow>
      (\<exists>fmac. format_mac macbuf = Inr fmac \<and> length fmac = 17
         \<and> validate_mac_address valid_mac_prefix macbuf warn =
             Inr (\<not> (macbuf = replicate 6 0x00 \<or> macbuf = replicate 6 0xff
                      \<or> bit (macbuf ! 0) 0 \<or> \<not> prefix valid_mac_prefix fmac))))
   \<and> validate_mac_address [] macbuf warn = Inr True"
proof -
  have "validate_mac_address [] macbuf warn = Inr True"
    by (simp add: validate_mac_address_def)
  moreover have "validate_mac_address valid_mac_prefix macbuf warn =
      Inr (\<not> (macbuf = replicate 6 0x00 \<or> macbuf = replicate 6 0xff
               \<or> bit (macbuf ! 0) 0 \<or> \<not> prefix valid_mac_prefix (snprintf_mac macbuf)))"
    if "length macbuf = 6" "valid_mac_prefix \<noteq> []"
    using that snprintf_mac_zero [of macbuf] snprintf_mac_ones [of macbuf]
      low_bit [of "macbuf ! 0"] take_is_prefix_iff [of valid_mac_prefix "snprintf_mac macbuf"]
    by (simp add: validate_mac_address_def format_mac_Inr)
  ultimately show ?thesis
    by (simp add: format_mac_Inr length_snprintf_mac)
qed

theorem validate_mac_address_rejects_exactly_witness:
  "validate_mac_address ''aa:bb'' [0xaa, 0xbb, 0xcc, 0xdd, 0xee, 0xff] True = Inr True
   \<and> validate_mac_address ''aa:bc'' [0xaa, 0xbb, 0xcc, 0xdd, 0xee, 0xff] True = Inr False
   \<and> validate_mac_address [] [0xaa, 0xbb, 0xcc, 0xdd, 0xee, 0xff] True = Inr True"
proof -
  let ?m = "[0xaa, 0xbb, 0xcc, 0xdd, 0xee, 0xff] :: u8 list"
  have fmt: "format_mac ?m = Inr ''aa:bb:cc:dd:ee:ff''"
    by (simp add: format_mac_Inr snprintf_mac_aabbccddeeff)
  have len: "length ?m = 6" by simp
  have nz: "?m \<noteq> replicate 6 0x00" "?m \<noteq> replicate 6 0xff" "\<not> bit (?m ! 0) 0"
    by (simp_all add: replicate_6)
  have p1: "prefix ''aa:bb'' ''aa:bb:cc:dd:ee:ff''" and p2: "\<not> prefix ''aa:bc'' ''aa:bb:cc:dd:ee:ff''"
    by simp_all
  from validate_mac_address_rejects_exactly [of ?m "''aa:bb''" True] fmt len nz p1
  have a: "validate_mac_address ''aa:bb'' ?m True = Inr True" by auto
  from validate_mac_address_rejects_exactly [of ?m "''aa:bc''" True] fmt len nz p2
  have b: "validate_mac_address ''aa:bc'' ?m True = Inr False" by auto
  from validate_mac_address_rejects_exactly [of ?m "[]" True]
  have c: "validate_mac_address [] ?m True = Inr True" by simp
  from a b c show ?thesis by simp
qed

section \<open>Waiting for the BUSY bit\<close>

lemma after_0: "after w 0 [] = w"
  by (simp add: after_def)

lemma after_after: "after (after w n evs) m evs' = after w (n + m) (evs @ evs')"
  by (simp add: after_def)

lemma calls_after: "calls (after w n evs) = calls w + n"
  by (simp add: after_def)

lemma called_after: "called e w = after w 1 [e]"
  by (simp add: called_def after_def)

lemma usleep_after: "usleep us w = after w 0 [Usleep us]"
  by (simp add: usleep_def after_def)

lemma wait_busy_limit: "wait_busy p MDIO_STATUS_POLL_LIMIT w = (Inr MDIO_STATUS_POLL_LIMIT, w)"
  by (subst wait_busy.simps) simp

lemma wait_busy_clear:
  "poll_clear p (calls w) \<Longrightarrow> i < MDIO_STATUS_POLL_LIMIT \<Longrightarrow>
   wait_busy p i w = (Inr i, after w 1 [Saferead32 Mdio_registers MDIO_CTRL_REG_OFFSET])"
  by (subst wait_busy.simps)
     (simp add: poll_clear_def easymem_saferead32_def called_after case_prod_beta)

lemma polls_busyD:
  "polls_busy p c n \<Longrightarrow> k < n \<Longrightarrow>
   0 \<le> fst (saferead32_res p (c + k))
   \<and> snd (saferead32_res p (c + k)) AND MDIO_CTRL_REQ_BUSY_BIT \<noteq> 0"
  by (simp add: polls_busy_iff)

lemma wait_busy_step:
  "polls_busy p (calls w) (Suc n) \<Longrightarrow> i < MDIO_STATUS_POLL_LIMIT \<Longrightarrow>
   wait_busy p i w = wait_busy p (Suc i) (after w 1 busy_poll)"
  using polls_busyD [of p "calls w" "Suc n" 0]
  by (subst wait_busy.simps)
     (simp add: easymem_saferead32_def called_after usleep_after after_after
        busy_poll_def case_prod_beta)

lemma polls_busy_shift: "polls_busy p c (Suc n) \<Longrightarrow> polls_busy p (Suc c) n"
  unfolding polls_busy_iff
proof (intro allI impI)
  fix k assume a: "\<forall>k<Suc n. 0 \<le> fst (saferead32_res p (c + k))
        \<and> snd (saferead32_res p (c + k)) AND MDIO_CTRL_REQ_BUSY_BIT \<noteq> 0" and "k < n"
  then have "Suc k < Suc n" by simp
  with a have "0 \<le> fst (saferead32_res p (c + Suc k))
        \<and> snd (saferead32_res p (c + Suc k)) AND MDIO_CTRL_REQ_BUSY_BIT \<noteq> 0"
    by blast
  then show "0 \<le> fst (saferead32_res p (Suc c + k))
        \<and> snd (saferead32_res p (Suc c + k)) AND MDIO_CTRL_REQ_BUSY_BIT \<noteq> 0"
    by simp
qed

lemma wait_busy_busy:
  "polls_busy p (calls w) n \<Longrightarrow> i + n = MDIO_STATUS_POLL_LIMIT \<Longrightarrow>
   wait_busy p i w = (Inr MDIO_STATUS_POLL_LIMIT, after w n (concat (replicate n busy_poll)))"
proof (induction n arbitrary: i w)
  case 0
  then show ?case by (simp add: wait_busy_limit after_0)
next
  case (Suc n)
  from Suc.prems(1) have more: "polls_busy p (Suc (calls w)) n"
    by (rule polls_busy_shift)
  from Suc.prems(2) have i: "i < MDIO_STATUS_POLL_LIMIT" and j: "Suc i + n = MDIO_STATUS_POLL_LIMIT"
    by simp_all
  have "wait_busy p i w = wait_busy p (Suc i) (after w 1 busy_poll)"
    using Suc.prems(1) i by (rule wait_busy_step)
  also have "\<dots> = (Inr MDIO_STATUS_POLL_LIMIT,
      after (after w 1 busy_poll) n (concat (replicate n busy_poll)))"
    using more j by (intro Suc.IH) (simp_all add: calls_after)
  finally show ?case by (simp add: after_after)
qed

lemma writes_okD: "writes_ok p c n \<Longrightarrow> k < n \<Longrightarrow> 0 \<le> safewrite32_rc p (c + k)"
  by (simp add: writes_ok_iff)

lemma after_writes_3:
  assumes "writes_ok p (calls w) 3"
  shows "0 \<le> safewrite32_rc p (calls w)" "0 \<le> safewrite32_rc p (Suc (calls w))"
    "0 \<le> safewrite32_rc p (Suc (Suc (calls w)))"
  using writes_okD [OF assms, of 0] writes_okD [OF assms, of 1] writes_okD [OF assms, of 2]
  by simp_all

lemma after_writes_2:
  assumes "writes_ok p (calls w) 2"
  shows "0 \<le> safewrite32_rc p (calls w)" "0 \<le> safewrite32_rc p (Suc (calls w))"
  using writes_okD [OF assms, of 0] writes_okD [OF assms, of 1]
  by simp_all

text \<open>Each phase up to its loop, when its writes succeed.\<close>

lemma mdio_phy_addr_to_wait:
  assumes "writes_ok p (calls w) 3"
  shows "mdio_phy_addr p pa da ra w =
    (case wait_busy p 0 (after w 3 (address_phase pa da ra)) of
       (Inl rc, w4) \<Rightarrow> (rc, w4)
     | (Inr i, w4) \<Rightarrow> if i = MDIO_STATUS_POLL_LIMIT then (- 1, w4) else (0, w4))"
  using after_writes_3 [OF assms]
  by (simp add: mdio_phy_addr_def easymem_safewrite32_def called_after usleep_after
      after_after calls_after address_phase_def numeral_3_eq_3)

lemma mdio_phy_write_to_wait:
  assumes "mdio_phy_addr p pa da ra w = (0, w0)" "writes_ok p (calls w0) 3"
  shows "mdio_phy_write p pa da ra v w =
    (case wait_busy p 0 (after w0 3 (write_phase pa da v)) of
       (Inl rc, w4) \<Rightarrow> (rc, w4)
     | (Inr i, w4) \<Rightarrow> if i = MDIO_STATUS_POLL_LIMIT then (- 1, w4) else (0, w4))"
  using after_writes_3 [OF assms(2)] assms(1)
  by (simp add: mdio_phy_write_def easymem_safewrite32_def called_after
      after_after calls_after write_phase_def numeral_3_eq_3)

lemma mdio_phy_read_to_wait:
  assumes "mdio_phy_addr p pa da ra w = (0, w0)" "writes_ok p (calls w0) 2"
  shows "mdio_phy_read p pa da ra w =
    (case wait_busy p 0 (after w0 2 (read_phase pa da)) of
       (Inl rc, w3) \<Rightarrow> ((rc, None), w3)
     | (Inr i, w3) \<Rightarrow>
         if i = MDIO_STATUS_POLL_LIMIT then ((- 1, None), w3)
         else case easymem_saferead32 p Mdio_registers MDIO_READ_BUF_OFFSET w3 of
           ((rc4, v), w4) \<Rightarrow> if rc4 < 0 then ((- 1, None), w4) else ((0, Some v), w4))"
  using after_writes_2 [OF assms(2)] assms(1)
  by (simp add: mdio_phy_read_def easymem_safewrite32_def called_after
      after_after calls_after read_phase_def numeral_2_eq_2)

lemma limit_pos: "0 < MDIO_STATUS_POLL_LIMIT" "0 \<noteq> MDIO_STATUS_POLL_LIMIT"
  by (simp_all add: MDIO_STATUS_POLL_LIMIT_def)

lemma mdio_phy_addr_timeout:
  assumes "writes_ok p (calls w) 3" "polls_busy p (calls w + 3) MDIO_STATUS_POLL_LIMIT"
  shows "mdio_phy_addr p pa da ra w =
    (- 1, after w (3 + MDIO_STATUS_POLL_LIMIT)
            (address_phase pa da ra @ concat (replicate MDIO_STATUS_POLL_LIMIT busy_poll)))"
  using assms(2)
  by (simp add: mdio_phy_addr_to_wait [OF assms(1)] wait_busy_busy calls_after after_after)

lemma mdio_phy_addr_clear:
  assumes "writes_ok p (calls w) 3" "poll_clear p (calls w + 3)"
  shows "mdio_phy_addr p pa da ra w =
    (0, after w 4 (address_phase pa da ra @ [Saferead32 Mdio_registers MDIO_CTRL_REG_OFFSET]))"
  using assms(2)
  by (simp add: mdio_phy_addr_to_wait [OF assms(1)] wait_busy_clear calls_after after_after
      limit_pos)

lemma mdio_phy_write_timeout:
  assumes "mdio_phy_addr p pa da ra w = (0, w0)" "writes_ok p (calls w0) 3"
    "polls_busy p (calls w0 + 3) MDIO_STATUS_POLL_LIMIT"
  shows "mdio_phy_write p pa da ra v w =
    (- 1, after w0 (3 + MDIO_STATUS_POLL_LIMIT)
            (write_phase pa da v @ concat (replicate MDIO_STATUS_POLL_LIMIT busy_poll)))"
  using assms(3)
  by (simp add: mdio_phy_write_to_wait [OF assms(1,2)] wait_busy_busy calls_after after_after)

lemma mdio_phy_write_clear:
  assumes "mdio_phy_addr p pa da ra w = (0, w0)" "writes_ok p (calls w0) 3"
    "poll_clear p (calls w0 + 3)"
  shows "mdio_phy_write p pa da ra v w =
    (0, after w0 4 (write_phase pa da v @ [Saferead32 Mdio_registers MDIO_CTRL_REG_OFFSET]))"
  using assms(3)
  by (simp add: mdio_phy_write_to_wait [OF assms(1,2)] wait_busy_clear calls_after after_after
      limit_pos)

lemma mdio_phy_read_timeout:
  assumes "mdio_phy_addr p pa da ra w = (0, w0)" "writes_ok p (calls w0) 2"
    "polls_busy p (calls w0 + 2) MDIO_STATUS_POLL_LIMIT"
  shows "mdio_phy_read p pa da ra w =
    ((- 1, None), after w0 (2 + MDIO_STATUS_POLL_LIMIT)
            (read_phase pa da @ concat (replicate MDIO_STATUS_POLL_LIMIT busy_poll)))"
  using assms(3)
  by (simp add: mdio_phy_read_to_wait [OF assms(1,2)] wait_busy_busy calls_after after_after)

lemma mdio_phy_read_clear:
  assumes "mdio_phy_addr p pa da ra w = (0, w0)" "writes_ok p (calls w0) 2"
    "poll_clear p (calls w0 + 2)" "0 \<le> fst (saferead32_res p (calls w0 + 3))"
  shows "mdio_phy_read p pa da ra w =
    ((0, Some (snd (saferead32_res p (calls w0 + 3)))),
     after w0 4 (read_phase pa da @ [Saferead32 Mdio_registers MDIO_CTRL_REG_OFFSET,
                                     Saferead32 Mdio_registers MDIO_READ_BUF_OFFSET]))"
  using assms(3,4)
  by (simp add: mdio_phy_read_to_wait [OF assms(1,2)] wait_busy_clear calls_after after_after
      limit_pos easymem_saferead32_def called_after case_prod_beta)

text \<open>
  C6. The poll budget is 100 reads of the control register, each followed by a sleep of
  10000 microseconds when it finds the BUSY bit set. In each of the three phases (the
  address phase, the data phase of a write, the data phase of a read): when the phase's
  register writes succeed and all 100 polls read BUSY set, the function returns \<open>-1\<close>
  after exactly 100 polls; when the first poll reads BUSY clear, the phase succeeds after
  that one read, with no sleep of the loop.
\<close>

theorem mdio_busy_poll:
  "MDIO_STATUS_POLL_LIMIT = 100 \<and> MDIO_STATUS_POLL_DELAY = 10000
   \<and> (writes_ok p (calls w) 3 \<and> polls_busy p (calls w + 3) MDIO_STATUS_POLL_LIMIT \<longrightarrow>
        mdio_phy_addr p pa da ra w =
          (- 1, after w (3 + MDIO_STATUS_POLL_LIMIT)
                  (address_phase pa da ra @ concat (replicate MDIO_STATUS_POLL_LIMIT busy_poll))))
   \<and> (writes_ok p (calls w) 3 \<and> poll_clear p (calls w + 3) \<longrightarrow>
        mdio_phy_addr p pa da ra w =
          (0, after w 4 (address_phase pa da ra
                          @ [Saferead32 Mdio_registers MDIO_CTRL_REG_OFFSET])))
   \<and> (mdio_phy_addr p pa da ra w = (0, w0) \<and> writes_ok p (calls w0) 3
        \<and> polls_busy p (calls w0 + 3) MDIO_STATUS_POLL_LIMIT \<longrightarrow>
        mdio_phy_write p pa da ra v w =
          (- 1, after w0 (3 + MDIO_STATUS_POLL_LIMIT)
                  (write_phase pa da v @ concat (replicate MDIO_STATUS_POLL_LIMIT busy_poll))))
   \<and> (mdio_phy_addr p pa da ra w = (0, w0) \<and> writes_ok p (calls w0) 3
        \<and> poll_clear p (calls w0 + 3) \<longrightarrow>
        mdio_phy_write p pa da ra v w =
          (0, after w0 4 (write_phase pa da v
                           @ [Saferead32 Mdio_registers MDIO_CTRL_REG_OFFSET])))
   \<and> (mdio_phy_addr p pa da ra w = (0, w0) \<and> writes_ok p (calls w0) 2
        \<and> polls_busy p (calls w0 + 2) MDIO_STATUS_POLL_LIMIT \<longrightarrow>
        mdio_phy_read p pa da ra w =
          ((- 1, None), after w0 (2 + MDIO_STATUS_POLL_LIMIT)
                  (read_phase pa da @ concat (replicate MDIO_STATUS_POLL_LIMIT busy_poll))))
   \<and> (mdio_phy_addr p pa da ra w = (0, w0) \<and> writes_ok p (calls w0) 2
        \<and> poll_clear p (calls w0 + 2) \<and> 0 \<le> fst (saferead32_res p (calls w0 + 3)) \<longrightarrow>
        mdio_phy_read p pa da ra w =
          ((0, Some (snd (saferead32_res p (calls w0 + 3)))),
           after w0 4 (read_phase pa da
                        @ [Saferead32 Mdio_registers MDIO_CTRL_REG_OFFSET,
                           Saferead32 Mdio_registers MDIO_READ_BUF_OFFSET])))"
  using mdio_phy_addr_timeout [of p w pa da ra] mdio_phy_addr_clear [of p w pa da ra]
    mdio_phy_write_timeout [of p pa da ra w w0 v] mdio_phy_write_clear [of p pa da ra w w0 v]
    mdio_phy_read_timeout [of p pa da ra w w0] mdio_phy_read_clear [of p pa da ra w w0]
  by (simp add: MDIO_STATUS_POLL_LIMIT_def MDIO_STATUS_POLL_DELAY_def)

lemma board_writes_ok: "writes_ok (board reads) c n"
  by (simp add: writes_ok_iff board_def rc_ok_def)

lemma board_busy: "polls_busy (board reads_busy) c n"
  by (simp add: polls_busy_iff board_def reads_busy_def MDIO_CTRL_REQ_BUSY_BIT_def)

lemma board_idle: "poll_clear (board reads_idle) c"
  by (simp add: poll_clear_def board_def reads_idle_def MDIO_CTRL_REQ_BUSY_BIT_def)

lemma board_busy_after: "m < c \<Longrightarrow> polls_busy (board (reads_busy_after m)) c n"
  by (simp add: polls_busy_iff board_def reads_busy_after_def MDIO_CTRL_REQ_BUSY_BIT_def)

lemma board_idle_until: "c \<le> m \<Longrightarrow> poll_clear (board (reads_busy_after m)) c"
  by (simp add: poll_clear_def board_def reads_busy_after_def MDIO_CTRL_REQ_BUSY_BIT_def)

theorem mdio_busy_poll_witness:
  "fst (mdio_phy_addr (board reads_busy) 0 1 0x8000 start) = - 1
   \<and> mdio_phy_addr (board reads_idle) 0 1 0x8000 start =
       (0, after start 4 (address_phase 0 1 0x8000
                           @ [Saferead32 Mdio_registers MDIO_CTRL_REG_OFFSET]))
   \<and> fst (mdio_phy_write (board (reads_busy_after 3)) 0 1 0x8000 0x4000 start) = - 1
   \<and> fst (mdio_phy_write (board reads_idle) 0 1 0x8000 0x4000 start) = 0
   \<and> fst (mdio_phy_read (board (reads_busy_after 3)) 0 1 0x8000 start) = (- 1, None)
   \<and> fst (mdio_phy_read (board reads_idle) 0 1 0x8000 start) = (0, Some 0x8)"
proof -
  let ?w0 = "after start 4 (address_phase 0 1 0x8000
                             @ [Saferead32 Mdio_registers MDIO_CTRL_REG_OFFSET])"
  have c0: "calls start = 0" "calls ?w0 = 4"
    by (simp_all add: start_def after_def)
  have busy: "fst (mdio_phy_addr (board reads_busy) 0 1 0x8000 start) = - 1"
    using mdio_busy_poll [of "board reads_busy" start 0 1 "0x8000" ?w0 0]
      board_writes_ok [of reads_busy 0 3] board_busy [of 3 MDIO_STATUS_POLL_LIMIT]
    by (simp add: c0)
  have idle: "mdio_phy_addr (board reads_idle) 0 1 0x8000 start = (0, ?w0)"
    using mdio_busy_poll [of "board reads_idle" start 0 1 "0x8000" ?w0 0]
      board_writes_ok [of reads_idle 0 3] board_idle [of 3]
    by (simp add: c0)
  have mixed: "mdio_phy_addr (board (reads_busy_after 3)) 0 1 0x8000 start = (0, ?w0)"
    using mdio_busy_poll [of "board (reads_busy_after 3)" start 0 1 "0x8000" ?w0 0]
      board_writes_ok [of "reads_busy_after 3" 0 3] board_idle_until [of 3 3]
    by (simp add: c0)
  have wr_busy: "fst (mdio_phy_write (board (reads_busy_after 3)) 0 1 0x8000 0x4000 start) = - 1"
    using mdio_busy_poll [of "board (reads_busy_after 3)" start 0 1 "0x8000" ?w0 "0x4000"]
      mixed board_writes_ok [of "reads_busy_after 3" 4 3]
      board_busy_after [of 3 7 MDIO_STATUS_POLL_LIMIT]
    by (simp add: c0)
  have wr_idle: "fst (mdio_phy_write (board reads_idle) 0 1 0x8000 0x4000 start) = 0"
    using mdio_busy_poll [of "board reads_idle" start 0 1 "0x8000" ?w0 "0x4000"]
      idle board_writes_ok [of reads_idle 4 3] board_idle [of 7]
    by (simp add: c0)
  have rd_busy: "fst (mdio_phy_read (board (reads_busy_after 3)) 0 1 0x8000 start) = (- 1, None)"
    using mdio_busy_poll [of "board (reads_busy_after 3)" start 0 1 "0x8000" ?w0 0]
      mixed board_writes_ok [of "reads_busy_after 3" 4 2]
      board_busy_after [of 3 6 MDIO_STATUS_POLL_LIMIT]
    by (simp add: c0)
  have rd_idle: "fst (mdio_phy_read (board reads_idle) 0 1 0x8000 start) = (0, Some 0x8)"
    using mdio_busy_poll [of "board reads_idle" start 0 1 "0x8000" ?w0 0]
      idle board_writes_ok [of reads_idle 4 2] board_idle [of 6]
    by (simp add: c0 board_def reads_idle_def)
  from busy idle wr_busy wr_idle rd_busy rd_idle show ?thesis by simp
qed

section \<open>Programming the MAC and reading it back\<close>

lemma mac_regvals_aabbccddeeff:
  "mac_high_regval [0xaa, 0xbb, 0xcc, 0xdd, 0xee, 0xff] = 0xddccbbaa"
  "mac_low_regval [0xaa, 0xbb, 0xcc, 0xdd, 0xee, 0xff] = 0x0000ffee"
  by (simp_all add: mac_high_regval_def mac_low_regval_def upt_rec)

lemma validate_aabbccddeeff_no_policy:
  "validate_mac_address [] m warn = Inr True"
  by (simp add: validate_mac_address_def)

lemma small_numerals:
  "(4::nat) = Suc (Suc (Suc (Suc 0)))"
  "(5::nat) = Suc (Suc (Suc (Suc (Suc 0))))"
  "(6::nat) = Suc (Suc (Suc (Suc (Suc (Suc 0)))))"
  "(7::nat) = Suc (Suc (Suc (Suc (Suc (Suc (Suc 0))))))"
  "(8::nat) = Suc (Suc (Suc (Suc (Suc (Suc (Suc (Suc 0)))))))"
  by simp_all

lemma gbe_configure_success:
  assumes "fst (gbe_configure p pfx m w) = Exit 0"
  shows "reaches_readback p pfx m w
    \<and> snd (saferead32_res p (calls w + 4)) = mac_high_regval m
    \<and> snd (saferead32_res p (calls w + 5)) AND 0x0000ffff = mac_low_regval m AND 0x0000ffff"
proof -
  have w3: "writes_ok p c (Suc (Suc (Suc 0)))"
    if "\<not> safewrite32_rc p c < 0" "\<not> safewrite32_rc p (Suc c) < 0"
      "\<not> safewrite32_rc p (Suc (Suc c)) < 0" for c
    unfolding writes_ok_iff
  proof (intro allI impI)
    fix k :: nat assume "k < Suc (Suc (Suc 0))"
    then have "k = 0 \<or> k = Suc 0 \<or> k = Suc (Suc 0)" by arith
    with that show "0 \<le> safewrite32_rc p (c + k)" by auto
  qed
  show ?thesis
    using assms
    by (auto simp: gbe_configure_def format_mac_Inr call_defs case_prod_beta reaches_readback_def
        numeral_2_eq_2 numeral_3_eq_3 small_numerals
        intro!: w3 split: sum.splits if_splits)
qed

lemma gbe_configure_readback:
  assumes "reaches_readback p pfx m w"
  shows "gbe_configure p pfx m w =
    (if snd (saferead32_res p (calls w + 4)) = mac_high_regval m
        \<and> snd (saferead32_res p (calls w + 5)) AND 0x0000ffff = mac_low_regval m AND 0x0000ffff
     then (Exit 0,
           (after w 6 (programmed (mac_high_regval m) (mac_low_regval m)))
             \<lparr>reset_line := Some 0\<rparr>)
     else (Exit 1,
           (after w 8 (programmed (mac_high_regval m) (mac_low_regval m) @ rollback))
             \<lparr>reset_line := Some (if gpiod_rc p (calls w + 7) < 0 then 0 else 1)\<rparr>))"
proof -
  from assms have v: "validate_mac_address pfx m True = Inr True"
    and wr: "writes_ok p (calls w) 3"
    and g: "0 \<le> gpiod_rc p (calls w + 3)"
    and r: "0 \<le> fst (saferead32_res p (calls w + 4))" "0 \<le> fst (saferead32_res p (calls w + 5))"
    by (simp_all add: reaches_readback_def)
  note ws = after_writes_3 [OF wr]
  show ?thesis
    using v ws g r
    by (simp add: gbe_configure_def format_mac_Inr call_defs case_prod_beta after_def
        programmed_def rollback_def numeral_2_eq_2 numeral_3_eq_3 small_numerals)
qed

lemma eeprom_macbuf: "map eeprom_byte [0..<6] = [0xaa, 0xbb, 0xcc, 0xdd, 0xee, 0xff]"
  by (simp add: upt_rec eeprom_byte_def)

lemma parse_mdio_writes_empty: "parse_mdio_writes [] = []"
  by (simp add: parse_mdio_writes_def parse_mdio_loop_end)

lemma initialize_run_to_mac:
  "main (board reads) no_policy DO_NOTHING [Opt_i] =
     gbe_configure (board reads) [] [0xaa, 0xbb, 0xcc, 0xdd, 0xee, 0xff]
       \<lparr>calls = 3,
        trace = [I2c_read 6, Gpiod_line_request_output 1, Gpiod_line_set_value 1,
                 Usleep GBE_RST_SETTLE_US],
        reset_line = Some 1\<rparr>"
  by (simp add: main_def do_initialize_def call_defs board_defs start_def eeprom_macbuf
      parse_mdio_writes_empty numeral_3_eq_3)

lemma reaches_readback_board:
  "0 \<le> fst (reads (calls w + 4)) \<Longrightarrow> 0 \<le> fst (reads (calls w + 5)) \<Longrightarrow>
   reaches_readback (board reads) [] m w"
  by (simp add: reaches_readback_def validate_aabbccddeeff_no_policy board_writes_ok)
     (simp add: board_def rc_ok_def)

text \<open>
  C1, as the code has it. With the MAC \<^verbatim>\<open>aa:bb:cc:dd:ee:ff\<close> the value written to
  \<^verbatim>\<open>USR_MAC_HIGH\<close> is \<^verbatim>\<open>0xddccbbaa\<close> (byte 0 of the MAC in the low byte) and the value
  written to \<^verbatim>\<open>USR_MAC_LOW\<close> is \<^verbatim>\<open>0x0000ffee\<close>. The run is declared successful only if
  it reads \<^verbatim>\<open>SYSTEM_MAC_HIGH\<close> and \<^verbatim>\<open>SYSTEM_MAC_LOW\<close> back (calls number 4 and 5 from
  the start of the step) with \<^verbatim>\<open>0xddccbbaa\<close> and with low 16 bits \<^verbatim>\<open>0xffee\<close>. When both
  reads succeed, any other readback makes the run sleep, drive the reset line to 1 and
  return 1; the line is then at 1 when that call succeeds.
\<close>

theorem gbe_configure_aabbccddeeff:
  "mac_high_regval [0xaa, 0xbb, 0xcc, 0xdd, 0xee, 0xff] = 0xddccbbaa
   \<and> mac_low_regval [0xaa, 0xbb, 0xcc, 0xdd, 0xee, 0xff] = 0x0000ffee
   \<and> (fst (gbe_configure p pfx [0xaa, 0xbb, 0xcc, 0xdd, 0xee, 0xff] w) = Exit 0 \<longrightarrow>
        reaches_readback p pfx [0xaa, 0xbb, 0xcc, 0xdd, 0xee, 0xff] w
        \<and> snd (saferead32_res p (calls w + 4)) = 0xddccbbaa
        \<and> snd (saferead32_res p (calls w + 5)) AND 0x0000ffff = 0xffee)
   \<and> (reaches_readback p pfx [0xaa, 0xbb, 0xcc, 0xdd, 0xee, 0xff] w \<longrightarrow>
        gbe_configure p pfx [0xaa, 0xbb, 0xcc, 0xdd, 0xee, 0xff] w =
          (if snd (saferead32_res p (calls w + 4)) = 0xddccbbaa
              \<and> snd (saferead32_res p (calls w + 5)) AND 0x0000ffff = 0xffee
           then (Exit 0, (after w 6 (programmed 0xddccbbaa 0x0000ffee))\<lparr>reset_line := Some 0\<rparr>)
           else (Exit 1,
                 (after w 8 (programmed 0xddccbbaa 0x0000ffee @ rollback))
                   \<lparr>reset_line := Some (if gpiod_rc p (calls w + 7) < 0 then 0 else 1)\<rparr>)))"
proof (intro conjI impI)
  let ?m = "[0xaa, 0xbb, 0xcc, 0xdd, 0xee, 0xff] :: u8 list"
  have low: "mac_low_regval ?m AND 0x0000ffff = 0xffee"
    by (simp add: mac_regvals_aabbccddeeff)
  show "mac_high_regval ?m = 0xddccbbaa" "mac_low_regval ?m = 0x0000ffee"
    by (rule mac_regvals_aabbccddeeff)+
  {
    assume "fst (gbe_configure p pfx ?m w) = Exit 0"
    note s = gbe_configure_success [OF this]
    from s show "reaches_readback p pfx ?m w" by (rule conjunct1)
    from s show "snd (saferead32_res p (calls w + 4)) = 0xddccbbaa"
      by (simp only: mac_regvals_aabbccddeeff)
    from s show "snd (saferead32_res p (calls w + 5)) AND 0x0000ffff = 0xffee"
      by (simp only: low)
  }
  assume r: "reaches_readback p pfx ?m w"
  show "gbe_configure p pfx ?m w =
          (if snd (saferead32_res p (calls w + 4)) = 0xddccbbaa
              \<and> snd (saferead32_res p (calls w + 5)) AND 0x0000ffff = 0xffee
           then (Exit 0, (after w 6 (programmed 0xddccbbaa 0x0000ffee))\<lparr>reset_line := Some 0\<rparr>)
           else (Exit 1,
                 (after w 8 (programmed 0xddccbbaa 0x0000ffee @ rollback))
                   \<lparr>reset_line := Some (if gpiod_rc p (calls w + 7) < 0 then 0 else 1)\<rparr>))"
    unfolding gbe_configure_readback [OF r] low
    by (simp only: mac_regvals_aabbccddeeff)
qed

theorem gbe_configure_aabbccddeeff_witness:
  "gbe_configure (board reads_as_written) [] [0xaa, 0xbb, 0xcc, 0xdd, 0xee, 0xff]
       (after start 3 []) =
     (Exit 0, (after start 9 (programmed 0xddccbbaa 0x0000ffee))\<lparr>reset_line := Some 0\<rparr>)
   \<and> gbe_configure (board reads_big_endian) [] [0xaa, 0xbb, 0xcc, 0xdd, 0xee, 0xff]
       (after start 3 []) =
     (Exit 1, (after start 11 (programmed 0xddccbbaa 0x0000ffee @ rollback))
                \<lparr>reset_line := Some 1\<rparr>)"
proof -
  let ?w = "after start 3 []"
  let ?m = "[0xaa, 0xbb, 0xcc, 0xdd, 0xee, 0xff] :: u8 list"
  have c: "calls ?w = 3" by (simp add: after_def start_def)
  have r1: "reaches_readback (board reads_as_written) [] ?m ?w"
    by (rule reaches_readback_board) (simp_all add: reads_as_written_def)
  have r2: "reaches_readback (board reads_big_endian) [] ?m ?w"
    by (rule reaches_readback_board) (simp_all add: reads_big_endian_def)
  have v1: "snd (saferead32_res (board reads_as_written) (calls ?w + 4)) = 0xddccbbaa"
    "snd (saferead32_res (board reads_as_written) (calls ?w + 5)) AND 0x0000ffff = 0xffee"
    by (simp_all add: c board_def reads_as_written_def)
  have v2: "snd (saferead32_res (board reads_big_endian) (calls ?w + 4)) \<noteq> 0xddccbbaa"
    "\<not> gpiod_rc (board reads_big_endian) (calls ?w + 7) < 0"
    by (simp_all add: c board_def reads_big_endian_def rc_ok_def)
  have w: "after ?w 6 evs = after start 9 evs" "after ?w 8 evs = after start 11 evs" for evs
    by (simp_all add: after_after)
  have a: "gbe_configure (board reads_as_written) [] ?m ?w =
     (Exit 0, (after start 9 (programmed 0xddccbbaa 0x0000ffee))\<lparr>reset_line := Some 0\<rparr>)"
    using gbe_configure_aabbccddeeff [of "board reads_as_written" "[]" ?w,
        THEN conjunct2, THEN conjunct2, THEN conjunct2, THEN mp, OF r1]
    by (simp only: v1 w simp_thms if_True)
  have b: "gbe_configure (board reads_big_endian) [] ?m ?w =
     (Exit 1, (after start 11 (programmed 0xddccbbaa 0x0000ffee @ rollback))
                \<lparr>reset_line := Some 1\<rparr>)"
    using gbe_configure_aabbccddeeff [of "board reads_big_endian" "[]" ?w,
        THEN conjunct2, THEN conjunct2, THEN conjunct2, THEN mp, OF r2]
    by (simp only: v2 w simp_thms if_False)
  from a b show ?thesis by (rule conjI)
qed

text \<open>
  C1 as the specification words it fails: on a board whose EEPROM holds
  \<^verbatim>\<open>aa:bb:cc:dd:ee:ff\<close> the run writes \<^verbatim>\<open>0xddccbbaa\<close> and \<^verbatim>\<open>0x0000ffee\<close>, and when the
  core answers the readback with \<^verbatim>\<open>0xaabbccdd\<close> and \<^verbatim>\<open>0x0000eeff\<close> the run rolls back
  and returns 1.
\<close>

theorem initialize_big_endian_readback_fails:
  "main (board reads_big_endian) no_policy DO_NOTHING [Opt_i] =
     (Exit 1,
      \<lparr>calls = 11,
       trace = [I2c_read 6, Gpiod_line_request_output 1, Gpiod_line_set_value 1,
                Usleep 1000000,
                Safewrite32 Gbe_registers 0x00 0xddccbbaa,
                Safewrite32 Gbe_registers 0x04 0x0000ffee,
                Usleep 1000000,
                Safewrite32 Gbe_registers 0x18 1,
                Gpiod_line_set_value 0,
                Usleep 1000000,
                Saferead32 Gbe_registers 0x10,
                Saferead32 Gbe_registers 0x14,
                Usleep 1000000,
                Unsafe_reg32 Gbe_registers 0x14,
                Gpiod_line_set_value 1],
       reset_line = Some 1\<rparr>)"
proof -
  let ?w = "\<lparr>calls = 3,
        trace = [I2c_read 6, Gpiod_line_request_output 1, Gpiod_line_set_value 1,
                 Usleep GBE_RST_SETTLE_US],
        reset_line = Some 1\<rparr>"
  have "reaches_readback (board reads_big_endian) [] [0xaa, 0xbb, 0xcc, 0xdd, 0xee, 0xff] ?w"
    by (rule reaches_readback_board) (simp_all add: reads_big_endian_def)
  then show ?thesis
    by (simp add: initialize_run_to_mac gbe_configure_readback mac_regvals_aabbccddeeff)
       (simp add: board_def reads_big_endian_def rc_ok_def after_def programmed_def
          rollback_def gbe_consts)
qed

section \<open>Exit status and the reset line at the end of a run\<close>

text \<open>
  C2 fails on the code at the two mappings: when \<^verbatim>\<open>easymem_map_uio\<close> fails for the 10GbE
  registers, or for the MDIO registers with a non-empty write list, \<^verbatim>\<open>main\<close> returns 0.
\<close>

theorem map_failure_exits_zero:
  "main ((board reads_idle)\<lparr>map_gbe_rc := - 1\<rparr>) no_policy DO_NOTHING [Opt_i] = (Exit 0, start)
   \<and> main ((board reads_idle)\<lparr>map_mdio_rc := - 1\<rparr>) phy_policy DO_NOTHING [Opt_i]
       = (Exit 0, start)"
  by (simp add: main_def board_def phy_policy_def)

text \<open>
  C3 fails on the code after the release of the reset line: when the read of
  \<^verbatim>\<open>SYSTEM_MAC_HIGH\<close> fails, \<^verbatim>\<open>main\<close> returns 1 and the last value driven on the reset
  line is 0, the core out of reset.
\<close>

theorem readback_error_leaves_core_running:
  "main (board reads_fail) no_policy DO_NOTHING [Opt_i] =
     (Exit 1,
      \<lparr>calls = 8,
       trace = [I2c_read 6, Gpiod_line_request_output 1, Gpiod_line_set_value 1,
                Usleep 1000000,
                Safewrite32 Gbe_registers 0x00 0xddccbbaa,
                Safewrite32 Gbe_registers 0x04 0x0000ffee,
                Usleep 1000000,
                Safewrite32 Gbe_registers 0x18 1,
                Gpiod_line_set_value 0,
                Usleep 1000000,
                Saferead32 Gbe_registers 0x10],
       reset_line = Some 0\<rparr>)"
  unfolding initialize_run_to_mac
  by (simp add: gbe_configure_def format_mac_Inr
      validate_aabbccddeeff_no_policy mac_regvals_aabbccddeeff call_defs board_def rc_ok_def
      reads_fail_def gbe_consts)

section \<open>The read of the stored MAC comes first\<close>

text \<open>Every step of a run only adds to the trace.\<close>

lemma wait_busy_trace:
  "wait_busy p i w = (r, w') \<Longrightarrow> \<exists>evs. trace w' = trace w @ evs"
proof (induction k \<equiv> "MDIO_STATUS_POLL_LIMIT - i" arbitrary: i w)
  case 0
  then have "\<not> i < MDIO_STATUS_POLL_LIMIT" by simp
  with "0.prems" show ?case by (subst (asm) wait_busy.simps) simp
next
  case (Suc k)
  then have i: "i < MDIO_STATUS_POLL_LIMIT" and k: "k = MDIO_STATUS_POLL_LIMIT - Suc i"
    by simp_all
  let ?w1 = "called (Saferead32 Mdio_registers MDIO_CTRL_REG_OFFSET) w"
  let ?rd = "saferead32_res p (calls w)"
  show ?case
  proof (cases "fst ?rd < 0 \<or> snd ?rd AND MDIO_CTRL_REQ_BUSY_BIT = 0")
    case True
    with Suc.prems i have "w' = ?w1"
      by (subst (asm) wait_busy.simps)
         (auto simp: easymem_saferead32_def case_prod_beta split: if_splits)
    then show ?thesis by (simp add: called_def)
  next
    case False
    with Suc.prems i
    have "wait_busy p (Suc i) (usleep MDIO_STATUS_POLL_DELAY ?w1) = (r, w')"
      by (subst (asm) wait_busy.simps)
         (auto simp: easymem_saferead32_def case_prod_beta split: if_splits)
    from Suc.hyps(1) [OF k this]
    show ?thesis by (auto simp: usleep_def called_def)
  qed
qed

lemma mdio_phy_addr_trace:
  "mdio_phy_addr p pa da ra w = (r, w') \<Longrightarrow> \<exists>evs. trace w' = trace w @ evs"
  by (auto simp: mdio_phy_addr_def call_defs split: prod.splits if_splits sum.splits
      dest!: wait_busy_trace)

lemma mdio_phy_write_trace:
  "mdio_phy_write p pa da ra v w = (r, w') \<Longrightarrow> \<exists>evs. trace w' = trace w @ evs"
  by (auto simp: mdio_phy_write_def call_defs split: prod.splits if_splits sum.splits
      dest!: wait_busy_trace mdio_phy_addr_trace)

lemma mdio_ops_loop_trace:
  "mdio_ops_loop p ops w = (r, w') \<Longrightarrow> \<exists>evs. trace w' = trace w @ evs"
proof (induction ops arbitrary: w)
  case Nil
  then show ?case by simp
next
  case (Cons mdio_op ops)
  obtain rc w1 where wr: "mdio_phy_write p (port mdio_op) (dev mdio_op) (reg mdio_op)
      (val mdio_op) w = (rc, w1)"
    by (cases "mdio_phy_write p (port mdio_op) (dev mdio_op) (reg mdio_op) (val mdio_op) w")
  from mdio_phy_write_trace [OF wr] obtain evs1 where e1: "trace w1 = trace w @ evs1" ..
  show ?case
  proof (cases "rc < 0")
    case True
    with Cons.prems wr have "w' = w1" by simp
    with e1 show ?thesis by simp
  next
    case False
    with Cons.prems wr have "mdio_ops_loop p ops w1 = (r, w')" by simp
    from Cons.IH [OF this] obtain evs2 where "trace w' = trace w1 @ evs2" ..
    with e1 show ?thesis by simp
  qed
qed

lemma gbe_configure_trace:
  "gbe_configure p pfx m w = (r, w') \<Longrightarrow> \<exists>evs. trace w' = trace w @ evs"
  by (auto simp: gbe_configure_def format_mac_Inr call_defs case_prod_beta
      split: sum.splits if_splits)

lemma do_initialize_trace:
  "do_initialize p cfg m w = (r, w') \<Longrightarrow> \<exists>evs. trace w' = trace w @ evs"
  by (auto simp: do_initialize_def call_defs split: prod.splits if_splits option.splits
      dest!: mdio_ops_loop_trace gbe_configure_trace)

lemma do_store_trace:
  "do_store p cfg set_mac w = (r, w') \<Longrightarrow> \<exists>evs. trace w' = trace w @ evs"
  by (auto simp: do_store_def call_defs case_prod_beta
      split: option.splits sum.splits if_splits)

lemma do_query_trace:
  "do_query cfg m w = (r, w') \<Longrightarrow> \<exists>evs. trace w' = trace w @ evs"
  by (auto simp: do_query_def split: sum.splits if_splits)

lemma main_after_resources:
  assumes "getopt_loop argv (''/etc/10ginit.ini'', action0, []) = Inr (path, act, set_mac)"
    and "act \<noteq> DO_NOTHING" and "resources_ok p (ini path)"
  shows "main p ini action0 argv =
    (case i2c_read p 6 start of ((n, macbuf), w) \<Rightarrow>
       if n \<noteq> 6 then (Exit 1, w)
       else if act = DO_QUERY then do_query (ini path) macbuf w
       else if act = DO_STORE then do_store p (ini path) set_mac w
       else if act = DO_INITIALIZE then do_initialize p (ini path) macbuf w
       else (Exit 0, w))"
  using assms by (auto simp: main_def resources_ok_def)

text \<open>
  C10. For every action (query, store, initialize), once the resources are acquired the
  first thing the run does is read 6 bytes from the EEPROM, before the branch of the
  action; when that read does not return 6 the run ends there with exit status 1. This
  holds for the store action too, whose branch never uses the bytes read.
\<close>

theorem main_reads_eeprom_first:
  "getopt_loop argv (''/etc/10ginit.ini'', action0, []) = Inr (path, act, set_mac)
   \<and> act \<noteq> DO_NOTHING \<and> resources_ok p (ini path) \<longrightarrow>
     (\<exists>evs. trace (snd (main p ini action0 argv)) = I2c_read 6 # evs)
     \<and> (fst (i2c_read_res p 0) \<noteq> 6 \<longrightarrow>
          main p ini action0 argv = (Exit 1, after start 1 [I2c_read 6]))"
proof (intro impI, elim conjE)
  assume a: "getopt_loop argv (''/etc/10ginit.ini'', action0, []) = Inr (path, act, set_mac)"
    "act \<noteq> DO_NOTHING" "resources_ok p (ini path)"
  note m = main_after_resources [of argv action0 path act set_mac p ini, OF a]
  let ?w = "called (I2c_read 6) start"
  have t: "trace ?w = [I2c_read 6]" by (simp add: called_def start_def)
  have first: "\<exists>evs. trace (snd (main p ini action0 argv)) = I2c_read 6 # evs"
  proof (cases "fst (i2c_read_res p 0) \<noteq> 6")
    case True
    then show ?thesis by (simp add: m i2c_read_def start_def called_def)
  next
    case False
    let ?macbuf = "map (snd (i2c_read_res p 0)) [0..<6]"
    obtain r w' where res: "main p ini action0 argv = (r, w')"
      by (cases "main p ini action0 argv")
    from a(2) have "act = DO_QUERY \<or> act = DO_STORE \<or> act = DO_INITIALIZE"
      by (cases act) simp_all
    then have "do_query (ini path) ?macbuf ?w = (r, w')
        \<or> do_store p (ini path) set_mac ?w = (r, w')
        \<or> do_initialize p (ini path) ?macbuf ?w = (r, w')"
      using False res by (auto simp: m i2c_read_def start_def)
    then have "\<exists>evs. trace w' = trace ?w @ evs"
      using do_query_trace do_store_trace do_initialize_trace by blast
    then show ?thesis by (simp add: res t)
  qed
  have stop: "fst (i2c_read_res p 0) \<noteq> 6 \<longrightarrow>
      main p ini action0 argv = (Exit 1, after start 1 [I2c_read 6])"
    by (simp add: m i2c_read_def start_def called_def after_def)
  from first stop
  show "(\<exists>evs. trace (snd (main p ini action0 argv)) = I2c_read 6 # evs)
     \<and> (fst (i2c_read_res p 0) \<noteq> 6 \<longrightarrow>
          main p ini action0 argv = (Exit 1, after start 1 [I2c_read 6]))" ..
qed

theorem main_reads_eeprom_first_witness:
  "main ((board reads_idle)\<lparr>i2c_read_res := eeprom_unreadable\<rparr>) no_policy DO_NOTHING
      [Opt_s ''aa:bb:cc:dd:ee:ff''] = (Exit 1, after start 1 [I2c_read 6])
   \<and> main ((board reads_idle)\<lparr>i2c_read_res := eeprom_unreadable\<rparr>) no_policy DO_NOTHING
      [Opt_q] = (Exit 1, after start 1 [I2c_read 6])
   \<and> main ((board reads_idle)\<lparr>i2c_read_res := eeprom_unreadable\<rparr>) no_policy DO_NOTHING
      [Opt_i] = (Exit 1, after start 1 [I2c_read 6])"
proof -
  let ?p = "(board reads_idle)\<lparr>i2c_read_res := eeprom_unreadable\<rparr>"
  have res: "resources_ok ?p (no_policy path)" for path
    by (simp add: resources_ok_def board_def no_policy_def)
  have bad: "fst (i2c_read_res ?p 0) \<noteq> 6"
    by (simp add: eeprom_unreadable_def)
  have g1: "getopt_loop [Opt_s ''aa:bb:cc:dd:ee:ff''] (''/etc/10ginit.ini'', DO_NOTHING, [])
      = Inr (''/etc/10ginit.ini'', DO_STORE, ''aa:bb:cc:dd:ee:ff'')"
    and g2: "getopt_loop [Opt_q] (''/etc/10ginit.ini'', DO_NOTHING, [])
      = Inr (''/etc/10ginit.ini'', DO_QUERY, [])"
    and g3: "getopt_loop [Opt_i] (''/etc/10ginit.ini'', DO_NOTHING, [])
      = Inr (''/etc/10ginit.ini'', DO_INITIALIZE, [])"
    by simp_all
  have a: "main ?p no_policy DO_NOTHING [Opt_s ''aa:bb:cc:dd:ee:ff'']
      = (Exit 1, after start 1 [I2c_read 6])"
    using main_reads_eeprom_first [of "[Opt_s ''aa:bb:cc:dd:ee:ff'']" DO_NOTHING
        "''/etc/10ginit.ini''" DO_STORE "''aa:bb:cc:dd:ee:ff''" ?p no_policy] g1 res bad
    by blast
  have b: "main ?p no_policy DO_NOTHING [Opt_q] = (Exit 1, after start 1 [I2c_read 6])"
    using main_reads_eeprom_first [of "[Opt_q]" DO_NOTHING
        "''/etc/10ginit.ini''" DO_QUERY "[]" ?p no_policy] g2 res bad
    by blast
  have c: "main ?p no_policy DO_NOTHING [Opt_i] = (Exit 1, after start 1 [I2c_read 6])"
    using main_reads_eeprom_first [of "[Opt_i]" DO_NOTHING
        "''/etc/10ginit.ini''" DO_INITIALIZE "[]" ?p no_policy] g3 res bad
    by blast
  from a b c show ?thesis by simp
qed

end
